theory Spec2Isabelle
  imports Main "HOL-Library.AList"
begin

section \<open>JavaScript values\<close>

text \<open>
  The values that travel through the request pipeline. Numbers are integers here
  (status codes and counters are the only numbers the pipeline itself inspects); an
  object is its list of own properties in insertion order.
\<close>

datatype jsval =
    VUndefined
  | VNull
  | VBool bool
  | VNum int
  | VStr string
  | VArr "jsval list"
  | VObj "(string \<times> jsval) list"

text \<open>JavaScript truthiness, as used by \<^verbatim>\<open>if (newResponse)\<close>.\<close>

fun truthy :: "jsval \<Rightarrow> bool" where
  "truthy VUndefined = False"
| "truthy VNull = False"
| "truthy (VBool b) = b"
| "truthy (VNum n) = (n \<noteq> 0)"
| "truthy (VStr s) = (s \<noteq> [])"
| "truthy (VArr _) = True"
| "truthy (VObj _) = True"

text \<open>\<^verbatim>\<open>x !== null && x !== undefined\<close> is \<open>\<not> nullish x\<close>.\<close>

fun nullish :: "jsval \<Rightarrow> bool" where
  "nullish VUndefined = True"
| "nullish VNull = True"
| "nullish _ = False"

section \<open>Schemas and compiled validators (the TypeBox collaborator)\<close>

text \<open>
  The schema library is external to the repository. The fragment used by the
  repository's examples is modelled: \<^verbatim>\<open>t.String()\<close>, \<^verbatim>\<open>t.Number()\<close>,
  \<^verbatim>\<open>t.Boolean()\<close> and \<^verbatim>\<open>t.Object({...})\<close> with all properties required. The second
  argument of \<open>TObject\<close> is the \<^verbatim>\<open>additionalProperties\<close> key of the schema object:
  \<open>None\<close> when the key is absent.
\<close>

datatype tschema =
    TString
  | TNumber
  | TBoolean
  | TObject "(string \<times> tschema) list" "bool option"

fun schema_check :: "tschema \<Rightarrow> jsval \<Rightarrow> bool" where
  "schema_check TString v = (case v of VStr _ \<Rightarrow> True | _ \<Rightarrow> False)"
| "schema_check TNumber v = (case v of VNum _ \<Rightarrow> True | _ \<Rightarrow> False)"
| "schema_check TBoolean v = (case v of VBool _ \<Rightarrow> True | _ \<Rightarrow> False)"
| "schema_check (TObject props ap) v =
     (case v of
        VObj kvs \<Rightarrow>
          list_all (\<lambda>(k, s). case map_of kvs k of Some x \<Rightarrow> schema_check s x | None \<Rightarrow> False) props
          \<and> (if ap = Some False then list_all (\<lambda>(k, x). k \<in> set (map fst props)) kvs else True)
      | _ \<Rightarrow> False)"

text \<open>The first error of a failed check, as a JSON-pointer path and a message.\<close>

fun first_some :: "'a option list \<Rightarrow> 'a option" where
  "first_some [] = None"
| "first_some (None # xs) = first_some xs"
| "first_some (Some x # xs) = Some x"

fun schema_first_error :: "tschema \<Rightarrow> jsval \<Rightarrow> (string \<times> string) option" where
  "schema_first_error TString v = (case v of VStr _ \<Rightarrow> None | _ \<Rightarrow> Some ([], ''Expected string''))"
| "schema_first_error TNumber v = (case v of VNum _ \<Rightarrow> None | _ \<Rightarrow> Some ([], ''Expected number''))"
| "schema_first_error TBoolean v = (case v of VBool _ \<Rightarrow> None | _ \<Rightarrow> Some ([], ''Expected boolean''))"
| "schema_first_error (TObject props ap) v =
     (case v of
        VObj kvs \<Rightarrow>
          (case first_some (map (\<lambda>(k, s).
                    case map_of kvs k of
                      None \<Rightarrow> Some (''/'' @ k, ''Expected required property'')
                    | Some x \<Rightarrow> (case schema_first_error s x of
                                  None \<Rightarrow> None
                                | Some (p, m) \<Rightarrow> Some (''/'' @ k @ p, m))) props) of
             Some e \<Rightarrow> Some e
           | None \<Rightarrow>
               (if ap = Some False
                then first_some (map (\<lambda>(k, x). if k \<in> set (map fst props) then None
                                                else Some (''/'' @ k, ''Unexpected property'')) kvs)
                else None))
      | _ \<Rightarrow> Some ([], ''Expected object''))"

text \<open>
  \<^verbatim>\<open>TypeCompiler.Compile(schema)\<close> yields a \<^verbatim>\<open>TypeCheck\<close> object with the methods
  \<^verbatim>\<open>Check(value)\<close> and \<^verbatim>\<open>Errors(value).First()\<close>.
\<close>

datatype type_check = TypeCheck tschema

fun Compile :: "tschema \<Rightarrow> type_check" where
  "Compile schema = TypeCheck schema"

fun Check :: "type_check \<Rightarrow> jsval \<Rightarrow> bool" where
  "Check (TypeCheck schema) v = schema_check schema v"

fun Errors_First :: "type_check \<Rightarrow> jsval \<Rightarrow> (string \<times> string) option" where
  "Errors_First (TypeCheck schema) v = schema_first_error schema v"

section \<open>Errors\<close>

text \<open>
  A thrown value. \<open>Error message cause\<close> is \<^verbatim>\<open>new Error(message, {cause})\<close>;
  \<open>TypeError\<close> is what the engine raises when a non-function is called.
\<close>

datatype js_error =
    Error string "string option"
  | TypeError string
  | ValidationError string string type_check jsval

text \<open>
  Modelled from the spec: the class \<^verbatim>\<open>ValidationError\<close> (module \<^verbatim>\<open>./validation\<close>) is
  not among the sources. The spec gives it the fields kind, cause, validator and value,
  and the error code \<^verbatim>\<open>VALIDATION\<close>; the executor derives the code from
  \<^verbatim>\<open>error.message\<close>, so the message of a validation error is \<^verbatim>\<open>VALIDATION\<close>.
\<close>

fun message :: "js_error \<Rightarrow> string" where
  "message (Error m c) = m"
| "message (TypeError m) = m"
| "message (ValidationError type c validator v) = ''VALIDATION''"

fun cause :: "js_error \<Rightarrow> string option" where
  "cause (Error m c) = c"
| "cause (TypeError m) = None"
| "cause (ValidationError type c validator v) = Some c"

text \<open>
  Modelled from the spec: \<^verbatim>\<open>mapErrorCode\<close> and \<^verbatim>\<open>mapErrorStatus\<close> (module \<^verbatim>\<open>./error\<close>)
  are not among the sources. The spec: codes \<^verbatim>\<open>NOT_FOUND\<close>, \<^verbatim>\<open>INTERNAL_SERVER_ERROR\<close>,
  \<^verbatim>\<open>VALIDATION\<close>, and \<^verbatim>\<open>UNKNOWN\<close> for anything not matching a known code string;
  statuses \<^verbatim>\<open>VALIDATION\<close> 400, \<^verbatim>\<open>NOT_FOUND\<close> 404, \<^verbatim>\<open>INTERNAL_SERVER_ERROR\<close> and
  \<^verbatim>\<open>UNKNOWN\<close> 500, unrecognized codes 500.
\<close>

definition mapErrorCode :: "string \<Rightarrow> string" where
  "mapErrorCode m =
     (if m = ''NOT_FOUND'' then ''NOT_FOUND''
      else if m = ''INTERNAL_SERVER_ERROR'' then ''INTERNAL_SERVER_ERROR''
      else if m = ''VALIDATION'' then ''VALIDATION''
      else ''UNKNOWN'')"

definition mapErrorStatus :: "string \<Rightarrow> int" where
  "mapErrorStatus code =
     (if code = ''VALIDATION'' then 400
      else if code = ''NOT_FOUND'' then 404
      else if code = ''INTERNAL_SERVER_ERROR'' then 500
      else if code = ''UNKNOWN'' then 500
      else 500)"

section \<open>Requests, the Context and responses\<close>

text \<open>
  The platform's \<^verbatim>\<open>Request\<close>, by what the executor reads of it. \<open>req_url\<close> is the
  outcome of \<^verbatim>\<open>request.url.match(mapPathnameAndQueryRegEx)\<close>: \<open>None\<close> when the URL
  does not match, otherwise the pathname (group 1) and the query string (group 2,
  \<open>None\<close> when absent). Header names are lower-case. \<open>req_json\<close>, \<open>req_text\<close> and
  \<open>req_form\<close> are what \<^verbatim>\<open>request.json()\<close>, \<^verbatim>\<open>request.text()\<close> and the entries of
  \<^verbatim>\<open>request.formData()\<close> resolve to; \<open>req_json\<close> is \<open>Inl\<close> when the payload is not
  JSON and the promise rejects.
\<close>

record request =
  req_method :: string
  req_url :: "(string \<times> string option) option"
  req_headers :: "(string \<times> string) list"
  req_json :: "js_error + jsval"
  req_text :: string
  req_form :: "(string \<times> jsval) list"

text \<open>\<^verbatim>\<open>context.set\<close>: the staged status and headers.\<close>

record ctx_set =
  set_status :: int
  set_headers :: "(string \<times> string) list"

text \<open>
  The Context. \<open>c_request\<close> is \<open>None\<close> and \<open>c_body\<close>, \<open>c_params\<close>, \<open>c_query\<close> are
  \<open>VUndefined\<close> while the property has never been assigned. \<open>c_store\<close> is the shared
  store; \<open>c_props\<close> holds every other property of the object (decorations and whatever
  a hook assigns). \<open>c_set\<close> is assigned at the entry of every \<open>handle\<close> before it is
  read.
\<close>

record "context" =
  c_request :: "request option"
  c_set :: ctx_set
  c_body :: jsval
  c_params :: jsval
  c_query :: jsval
  c_store :: "(string \<times> jsval) list"
  c_props :: "(string \<times> jsval) list"

text \<open>
  A \<^verbatim>\<open>Response\<close>: status, headers, content type (\<open>None\<close> is the platform's default
  for a text body) and the value the body was made from; serialization is the
  platform's.
\<close>

record response =
  r_status :: int
  r_headers :: "(string \<times> string) list"
  r_content_type :: "string option"
  r_body :: jsval

text \<open>What a hook or a handler returns: a plain value or a \<^verbatim>\<open>Response\<close> object.\<close>

datatype retval = Val jsval | Resp response

fun retval_truthy :: "retval \<Rightarrow> bool" where
  "retval_truthy (Val v) = truthy v"
| "retval_truthy (Resp r) = True"

fun retval_nullish :: "retval \<Rightarrow> bool" where
  "retval_nullish (Val v) = nullish v"
| "retval_nullish (Resp r) = False"

text \<open>
  Modelled from the spec: \<^verbatim>\<open>mapResponse\<close> and \<^verbatim>\<open>mapEarlyResponse\<close> (module
  \<^verbatim>\<open>./handler\<close>) are not among the sources. The spec: a \<^verbatim>\<open>Response\<close>-shaped value is
  passed through unchanged; a string, number or boolean is wrapped with a default
  content type and the staged status and headers; a structured value is serialized and
  given a JSON content type; \<^verbatim>\<open>undefined\<close> or \<^verbatim>\<open>null\<close> from an early-exit stage means
  no short-circuit. For \<^verbatim>\<open>mapResponse\<close> of \<^verbatim>\<open>undefined\<close> or \<^verbatim>\<open>null\<close> the spec says
  nothing; the model wraps it like a scalar.
\<close>

fun mapResponse :: "retval \<Rightarrow> ctx_set \<Rightarrow> response" where
  "mapResponse (Resp r) st = r"
| "mapResponse (Val (VObj kvs)) st =
     \<lparr>r_status = set_status st, r_headers = set_headers st,
      r_content_type = Some ''application/json'', r_body = VObj kvs\<rparr>"
| "mapResponse (Val (VArr vs)) st =
     \<lparr>r_status = set_status st, r_headers = set_headers st,
      r_content_type = Some ''application/json'', r_body = VArr vs\<rparr>"
| "mapResponse (Val v) st =
     \<lparr>r_status = set_status st, r_headers = set_headers st,
      r_content_type = None, r_body = v\<rparr>"

fun mapEarlyResponse :: "retval \<Rightarrow> ctx_set \<Rightarrow> response option" where
  "mapEarlyResponse (Val VUndefined) st = None"
| "mapEarlyResponse (Val VNull) st = None"
| "mapEarlyResponse v st = Some (mapResponse v st)"

section \<open>Hooks\<close>

text \<open>
  A callback is a function of the state it can reach to its outcome and the new state:
  \<open>Inl\<close> a thrown error, \<open>Inr\<close> the returned (awaited) value. Lifecycle callbacks
  receive the Context object; state they keep outside the Context is modelled as part
  of the store. An error callback receives \<^verbatim>\<open>{request, error, set, code}\<close>.
\<close>

type_synonym handler = "context \<Rightarrow> (js_error + retval) \<times> context"

type_synonym after_handler = "context \<Rightarrow> retval \<Rightarrow> (js_error + retval) \<times> context"

type_synonym body_parser = "context \<Rightarrow> string \<Rightarrow> (js_error + jsval) \<times> context"

record error_scope =
  es_set :: ctx_set
  es_store :: "(string \<times> jsval) list"

type_synonym error_handler =
  "request \<Rightarrow> js_error \<Rightarrow> string \<Rightarrow> error_scope \<Rightarrow> (js_error + retval) \<times> error_scope"

text \<open>\<^verbatim>\<open>onStart\<close> and \<^verbatim>\<open>onStop\<close> callbacks are only stored by the modelled code.\<close>

type_synonym void_lifecycle = string

text \<open>\<^verbatim>\<open>LifeCycleStore\<close>\<close>

record lifecycle_store =
  ev_start :: "void_lifecycle list"
  ev_request :: "handler list"
  ev_parse :: "body_parser list"
  ev_transform :: "handler list"
  ev_beforeHandle :: "handler list"
  ev_afterHandle :: "after_handler list"
  ev_error :: "error_handler list"
  ev_stop :: "void_lifecycle list"

text \<open>
  \<^verbatim>\<open>TypedSchema\<close>. A field is an inline schema or the name of a registered model.
  The object that \<open>mergeHook\<close> builds has the key \<^verbatim>\<open>header\<close> where a declaration has
  \<^verbatim>\<open>headers\<close>; both keys are fields here, \<open>None\<close> when the key is absent. The
  \<^verbatim>\<open>detail\<close> key (documentation metadata) is not modelled.
\<close>

datatype schema_ref = Inline tschema | Name string

datatype response_schema =
    RSchema tschema
  | RName string
  | RRecord "(string \<times> schema_ref) list"

record typed_schema =
  s_body :: "schema_ref option"
  s_headers :: "schema_ref option"
  s_header :: "schema_ref option"
  s_params :: "schema_ref option"
  s_query :: "schema_ref option"
  s_response :: "response_schema option"

text \<open>\<^verbatim>\<open>WithArray<T>\<close>: one callback or an array of them.\<close>

datatype 'a with_array = One 'a | Many "'a list"

text \<open>\<^verbatim>\<open>LocalHook\<close>: every key is optional.\<close>

record local_hook =
  l_schema :: "typed_schema option"
  l_parse :: "body_parser with_array option"
  l_transform :: "handler with_array option"
  l_beforeHandle :: "handler with_array option"
  l_afterHandle :: "after_handler with_array option"
  l_error :: "error_handler with_array option"

text \<open>\<^verbatim>\<open>RegisteredHook\<close>\<close>

record registered_hook =
  h_schema :: "typed_schema option"
  h_transform :: "handler list"
  h_beforeHandle :: "handler list"
  h_afterHandle :: "after_handler list"
  h_parse :: "body_parser list"
  h_error :: "error_handler list"

text \<open>
  \<open>mergeHook\<close> takes a \<^verbatim>\<open>LocalHook | LifeCycleStore\<close> first and is also called with the
  \<^verbatim>\<open>RegisteredHook\<close> of a stored route; these read a lifecycle store and a registered
  hook by the keys \<open>mergeHook\<close> looks at.
\<close>

definition of_event :: "lifecycle_store \<Rightarrow> local_hook" where
  "of_event e =
     \<lparr>l_schema = None,
      l_parse = Some (Many (ev_parse e)),
      l_transform = Some (Many (ev_transform e)),
      l_beforeHandle = Some (Many (ev_beforeHandle e)),
      l_afterHandle = Some (Many (ev_afterHandle e)),
      l_error = Some (Many (ev_error e))\<rparr>"

definition of_registered :: "registered_hook \<Rightarrow> local_hook" where
  "of_registered h =
     \<lparr>l_schema = h_schema h,
      l_parse = Some (Many (h_parse h)),
      l_transform = Some (Many (h_transform h)),
      l_beforeHandle = Some (Many (h_beforeHandle h)),
      l_afterHandle = Some (Many (h_afterHandle h)),
      l_error = Some (Many (h_error h))\<rparr>"

section \<open>utils.ts\<close>

fun to_array :: "'a with_array \<Rightarrow> 'a list" where
  "to_array (One x) = [x]"
| "to_array (Many xs) = xs"

definition mergeObjectArray :: "'a with_array \<Rightarrow> 'a with_array \<Rightarrow> 'a list" where
  "mergeObjectArray a b = to_array a @ to_array b"

text \<open>\<^verbatim>\<open>x ?? []\<close>\<close>

fun or_empty :: "'a with_array option \<Rightarrow> 'a with_array" where
  "or_empty None = Many []"
| "or_empty (Some w) = w"

text \<open>\<^verbatim>\<open>x ?? y\<close>\<close>

fun coalesce :: "'a option \<Rightarrow> 'a option \<Rightarrow> 'a option" where
  "coalesce (Some x) y = Some x"
| "coalesce None y = y"

text \<open>\<^verbatim>\<open>schema?.field\<close>\<close>

fun opt_field :: "'s option \<Rightarrow> ('s \<Rightarrow> 'a option) \<Rightarrow> 'a option" where
  "opt_field None f = None"
| "opt_field (Some s) f = f s"

definition mergeHook :: "local_hook \<Rightarrow> local_hook option \<Rightarrow> registered_hook" where
  "mergeHook a b =
     (let aSchema = l_schema a;
          bSchema = opt_field b l_schema
      in \<lparr>h_schema =
             (if aSchema = None \<and> bSchema = None then None
              else Some
                \<lparr>s_body = coalesce (opt_field bSchema s_body) (opt_field aSchema s_body),
                 s_headers = None,
                 s_header = coalesce (opt_field bSchema s_headers) (opt_field aSchema s_headers),
                 s_params = coalesce (opt_field bSchema s_params) (opt_field aSchema s_params),
                 s_query = coalesce (opt_field bSchema s_query) (opt_field aSchema s_query),
                 s_response = coalesce (opt_field bSchema s_response) (opt_field aSchema s_response)\<rparr>),
          h_transform =
             mergeObjectArray (or_empty (l_transform a)) (or_empty (opt_field b l_transform)),
          h_beforeHandle =
             mergeObjectArray (or_empty (l_beforeHandle a)) (or_empty (opt_field b l_beforeHandle)),
          h_afterHandle =
             mergeObjectArray (or_empty (l_afterHandle a)) (or_empty (opt_field b l_afterHandle)),
          h_parse = mergeObjectArray (or_empty (l_parse a)) (or_empty (opt_field b l_parse)),
          h_error = mergeObjectArray (or_empty (l_error a)) (or_empty (opt_field b l_error))\<rparr>)"

text \<open>\<^verbatim>\<open>clone = (value) => [value][0]\<close>\<close>

definition clone :: "'a \<Rightarrow> 'a" where
  "clone v = [v] ! 0"

text \<open>
  \<^verbatim>\<open>createValidationError\<close>: the cause is
  \<^verbatim>\<open>Invalid ${type}: '${error?.path?.slice(1) || 'root'}'. ${error?.message}\<close>.
\<close>

definition createValidationError :: "string \<Rightarrow> type_check \<Rightarrow> jsval \<Rightarrow> js_error" where
  "createValidationError type validator v =
     (let error = Errors_First validator v;
          path = (case error of
                    None \<Rightarrow> ''root''
                  | Some (p, m) \<Rightarrow> if drop 1 p = [] then ''root'' else drop 1 p);
          msg = (case error of None \<Rightarrow> ''undefined'' | Some (p, m) \<Rightarrow> m)
      in ValidationError type
           (''Invalid '' @ type @ '': '' @ [CHR 0x27] @ path @ [CHR 0x27] @ ''. '' @ msg)
           validator v)"

text \<open>
  The assignment \<^verbatim>\<open>schema.additionalProperties = additionalProperties\<close>, made when
  \<^verbatim>\<open>schema.type === 'object'\<close> and the key is absent. The source assigns into the
  schema object it was given; the model returns the schema that gets compiled.
\<close>

fun with_additionalProperties :: "tschema \<Rightarrow> bool \<Rightarrow> tschema" where
  "with_additionalProperties (TObject props None) ap = TObject props (Some ap)"
| "with_additionalProperties schema ap = schema"

definition getSchemaValidator ::
  "schema_ref option \<Rightarrow> (string \<times> tschema) list \<Rightarrow> bool \<Rightarrow> type_check option" where
  "getSchemaValidator s models additionalProperties =
     (case s of
        None \<Rightarrow> None
      | Some (Name n) \<Rightarrow>
          (if n = [] then None
           else (case map_of models n of
                   None \<Rightarrow> None
                 | Some schema \<Rightarrow>
                     Some (Compile (with_additionalProperties schema additionalProperties))))
      | Some (Inline schema) \<Rightarrow>
          Some (Compile (with_additionalProperties schema additionalProperties)))"

text \<open>
  \<^verbatim>\<open>getResponseSchemaValidator\<close>: a record from status to compiled validator. A key
  of the result is the status as the declaration writes it (the source's
  \<^verbatim>\<open>record[+status]\<close>, for a status written in decimal).
\<close>

fun response_record ::
  "(string \<times> schema_ref) list \<Rightarrow> (string \<times> tschema) list \<Rightarrow> bool \<Rightarrow>
   (string \<times> type_check) list \<Rightarrow> (string \<times> type_check) list" where
  "response_record [] models ap record = record"
| "response_record ((status, Name n) # rest) models ap record =
     response_record rest models ap
       (case map_of models n of
          None \<Rightarrow> record
        | Some schema \<Rightarrow> AList.update status (Compile schema) record)"
| "response_record ((status, Inline schema) # rest) models ap record =
     response_record rest models ap
       (AList.update status (Compile (with_additionalProperties schema ap)) record)"

definition getResponseSchemaValidator ::
  "response_schema option \<Rightarrow> (string \<times> tschema) list \<Rightarrow> bool \<Rightarrow>
   (string \<times> type_check) list option" where
  "getResponseSchemaValidator s models additionalProperties =
     (case s of
        None \<Rightarrow> None
      | Some (RName n) \<Rightarrow>
          (if n = [] then None
           else (case map_of models n of
                   None \<Rightarrow> None
                 | Some schema \<Rightarrow> Some [(''200'', Compile schema)]))
      | Some (RSchema schema) \<Rightarrow> Some [(''200'', Compile schema)]
      | Some (RRecord r) \<Rightarrow> Some (response_record r models additionalProperties []))"

section \<open>The router collaborator\<close>

text \<open>\<^verbatim>\<open>SchemaValidator\<close>, as the object that \<open>_addHandler\<close> builds and \<open>handle\<close> reads:
  \<open>_addHandler\<close> writes the key \<^verbatim>\<open>header\<close>, \<open>handle\<close> reads the key \<^verbatim>\<open>headers\<close>. The
  response validators are a record from status to validator.\<close>

record schema_validator =
  v_body :: "type_check option"
  v_headers :: "type_check option"
  v_header :: "type_check option"
  v_params :: "type_check option"
  v_query :: "type_check option"
  v_response :: "(string \<times> type_check) list option"

text \<open>What a route stores in the router: \<^verbatim>\<open>{handle, hooks, validator}\<close>.\<close>

record main_handler =
  mh_handle :: handler
  mh_hooks :: "registered_hook option"
  mh_validator :: "schema_validator option"

text \<open>
  The path-matching structure is external, used through \<^verbatim>\<open>add(method, path, store)\<close>
  and \<^verbatim>\<open>match(method, path)\<close>. The model keeps the added entries in order and matches
  a static path exactly, then a pattern that ends in \<^verbatim>\<open>*\<close> by its prefix (the rest of
  the path is the parameter \<^verbatim>\<open>*\<close>); of two entries for one method and path the first
  is found. Patterns with \<^verbatim>\<open>:name\<close> segments are not modelled.
\<close>

type_synonym router = "(string \<times> string \<times> main_handler) list"

definition router_add :: "string \<Rightarrow> string \<Rightarrow> main_handler \<Rightarrow> router \<Rightarrow> router" where
  "router_add method path store r = r @ [(method, path, store)]"

fun match_static :: "router \<Rightarrow> string \<Rightarrow> string \<Rightarrow> main_handler option" where
  "match_static [] method path = None"
| "match_static ((m, p, store) # r) method path =
     (if m = method \<and> p = path then Some store else match_static r method path)"

fun match_wildcard :: "router \<Rightarrow> string \<Rightarrow> string \<Rightarrow> (main_handler \<times> jsval) option" where
  "match_wildcard [] method path = None"
| "match_wildcard ((m, p, store) # r) method path =
     (if m = method \<and> p \<noteq> [] \<and> last p = CHR ''*''
         \<and> take (length p - 1) path = butlast p
      then Some (store, VObj [(''*'', VStr (drop (length p - 1) path))])
      else match_wildcard r method path)"

definition router_match :: "router \<Rightarrow> string \<Rightarrow> string \<Rightarrow> (main_handler \<times> jsval) option" where
  "router_match r method path =
     (case match_static r method path of
        Some store \<Rightarrow> Some (store, VObj [])
      | None \<Rightarrow> match_wildcard r method path)"

section \<open>The application class\<close>

text \<open>\<^verbatim>\<open>InternalRoute\<close>\<close>

record internal_route =
  ir_method :: string
  ir_path :: string
  ir_handler :: handler
  ir_hooks :: registered_hook

text \<open>
  The fields of \<^verbatim>\<open>Elysia\<close> that the request lifecycle uses. \<open>decorators\<close> is the object
  that \<open>handle\<close> uses as the Context; its \<open>c_store\<close> is \<^verbatim>\<open>this.store\<close> (one object for
  an application made by \<^verbatim>\<open>new Elysia()\<close>). \<open>defs\<close> is \<^verbatim>\<open>this.meta[DEFS]\<close>. The
  application's own \<^verbatim>\<open>$schema\<close> is \<^verbatim>\<open>null\<close> throughout (the method \<^verbatim>\<open>schema\<close> is not
  modelled), and so are the socket router, the exposed functions and the server.
\<close>

record elysia =
  decorators :: "context"
  defs :: "(string \<times> tschema) list"
  event :: lifecycle_store
  router :: router
  routes :: "internal_route list"

definition store :: "elysia \<Rightarrow> (string \<times> jsval) list" where
  "store app = c_store (decorators app)"

definition new_Elysia :: elysia where
  "new_Elysia =
     \<lparr>decorators =
        \<lparr>c_request = None,
         c_set = \<lparr>set_status = 200, set_headers = []\<rparr>,
         c_body = VUndefined, c_params = VUndefined, c_query = VUndefined,
         c_store = [], c_props = []\<rparr>,
      defs = [],
      event =
        \<lparr>ev_start = [], ev_request = [], ev_parse = [], ev_transform = [],
         ev_beforeHandle = [], ev_afterHandle = [], ev_error = [], ev_stop = []\<rparr>,
      router = [],
      routes = []\<rparr>"

subsection \<open>Route registration\<close>

text \<open>
  \<^verbatim>\<open>_addHandler\<close>. \<^verbatim>\<open>hook?.schema?.body ?? this.$schema?.body\<close> is written with
  \<open>None\<close> for its second operand, \<^verbatim>\<open>this.$schema\<close> being \<^verbatim>\<open>null\<close>. The validator object
  is built with the shorthand key \<^verbatim>\<open>header\<close>. Registering the documentation of the route
  (\<^verbatim>\<open>registerSchemaPath\<close>) is not modelled.
\<close>

definition addHandler ::
  "string \<Rightarrow> string \<Rightarrow> handler \<Rightarrow> local_hook option \<Rightarrow> elysia \<Rightarrow> elysia" where
  "addHandler method path0 handler hook app =
     (let path = (if take 1 path0 = ''/'' then path0 else ''/'' @ path0);
          routes1 = routes app @
            [\<lparr>ir_method = method, ir_path = path, ir_handler = handler,
              ir_hooks = mergeHook (of_event (event app)) hook\<rparr>];
          schema = opt_field hook l_schema;
          body = getSchemaValidator (coalesce (opt_field schema s_body) None) (defs app) False;
          header = getSchemaValidator (coalesce (opt_field schema s_headers) None) (defs app) True;
          params = getSchemaValidator (coalesce (opt_field schema s_params) None) (defs app) False;
          query = getSchemaValidator (coalesce (opt_field schema s_query) None) (defs app) False;
          response =
            getResponseSchemaValidator (coalesce (opt_field schema s_response) None) (defs app) False;
          validator =
            (if body = None \<and> header = None \<and> params = None \<and> query = None
                \<and> response = None
             then None
             else Some \<lparr>v_body = body, v_headers = None, v_header = header,
                        v_params = params, v_query = query, v_response = response\<rparr>);
          hooks = mergeHook (of_event (clone (event app))) hook;
          hooks1 =
            (if h_schema hooks = None \<and> h_transform hooks = [] \<and> h_beforeHandle hooks = []
                \<and> h_error hooks = [] \<and> h_afterHandle hooks = []
             then None else Some hooks);
          mainHandler = \<lparr>mh_handle = handler, mh_hooks = hooks1, mh_validator = validator\<rparr>
      in app\<lparr>routes := routes1, router := router_add method path mainHandler (router app)\<rparr>)"

definition get :: "string \<Rightarrow> handler \<Rightarrow> local_hook option \<Rightarrow> elysia \<Rightarrow> elysia" where
  "get path handler hook app = addHandler ''GET'' path handler hook app"

definition post :: "string \<Rightarrow> handler \<Rightarrow> local_hook option \<Rightarrow> elysia \<Rightarrow> elysia" where
  "post path handler hook app = addHandler ''POST'' path handler hook app"

definition route :: "string \<Rightarrow> string \<Rightarrow> handler \<Rightarrow> local_hook option \<Rightarrow> elysia \<Rightarrow> elysia" where
  "route method path handler hook app = addHandler method path handler hook app"

subsection \<open>Lifecycle registration\<close>

definition onStart :: "void_lifecycle \<Rightarrow> elysia \<Rightarrow> elysia" where
  "onStart handler app = app\<lparr>event := (event app)\<lparr>ev_start := ev_start (event app) @ [handler]\<rparr>\<rparr>"

definition onRequest :: "handler \<Rightarrow> elysia \<Rightarrow> elysia" where
  "onRequest handler app =
     app\<lparr>event := (event app)\<lparr>ev_request := ev_request (event app) @ [handler]\<rparr>\<rparr>"

text \<open>
  \<^verbatim>\<open>array.splice(start, 0, item)\<close>: a negative \<open>start\<close> counts from the end and is
  clamped at 0, a \<open>start\<close> beyond the length is clamped at the length.
\<close>

definition splice_insert :: "int \<Rightarrow> 'a \<Rightarrow> 'a list \<Rightarrow> 'a list" where
  "splice_insert start item xs =
     (let len = int (length xs);
          k = (if start < 0 then max (len + start) 0 else min start len)
      in take (nat k) xs @ [item] @ drop (nat k) xs)"

definition onParse :: "body_parser \<Rightarrow> elysia \<Rightarrow> elysia" where
  "onParse parser app =
     app\<lparr>event := (event app)
        \<lparr>ev_parse := splice_insert (int (length (ev_parse (event app))) - 1) parser
                        (ev_parse (event app))\<rparr>\<rparr>"

definition onTransform :: "handler \<Rightarrow> elysia \<Rightarrow> elysia" where
  "onTransform handler app =
     app\<lparr>event := (event app)\<lparr>ev_transform := ev_transform (event app) @ [handler]\<rparr>\<rparr>"

definition onBeforeHandle :: "handler \<Rightarrow> elysia \<Rightarrow> elysia" where
  "onBeforeHandle handler app =
     app\<lparr>event := (event app)\<lparr>ev_beforeHandle := ev_beforeHandle (event app) @ [handler]\<rparr>\<rparr>"

definition onAfterHandle :: "after_handler \<Rightarrow> elysia \<Rightarrow> elysia" where
  "onAfterHandle handler app =
     app\<lparr>event := (event app)\<lparr>ev_afterHandle := ev_afterHandle (event app) @ [handler]\<rparr>\<rparr>"

definition onError :: "error_handler \<Rightarrow> elysia \<Rightarrow> elysia" where
  "onError errorHandler app =
     app\<lparr>event := (event app)\<lparr>ev_error := ev_error (event app) @ [errorHandler]\<rparr>\<rparr>"

definition onStop :: "void_lifecycle \<Rightarrow> elysia \<Rightarrow> elysia" where
  "onStop handler app = app\<lparr>event := (event app)\<lparr>ev_stop := ev_stop (event app) @ [handler]\<rparr>\<rparr>"

text \<open>\<^verbatim>\<open>on(type, handler)\<close>: the event name with a callback of its type.\<close>

datatype lifecycle =
    Start void_lifecycle
  | Request handler
  | Parse body_parser
  | Transform handler
  | BeforeHandle handler
  | AfterHandle after_handler
  | OnError error_handler
  | Stop void_lifecycle

fun on :: "lifecycle \<Rightarrow> elysia \<Rightarrow> elysia" where
  "on (Start h) app = app\<lparr>event := (event app)\<lparr>ev_start := ev_start (event app) @ [h]\<rparr>\<rparr>"
| "on (Request h) app = app\<lparr>event := (event app)\<lparr>ev_request := ev_request (event app) @ [h]\<rparr>\<rparr>"
| "on (Parse h) app = app\<lparr>event := (event app)\<lparr>ev_parse := ev_parse (event app) @ [h]\<rparr>\<rparr>"
| "on (Transform h) app =
     app\<lparr>event := (event app)\<lparr>ev_transform := ev_transform (event app) @ [h]\<rparr>\<rparr>"
| "on (BeforeHandle h) app =
     app\<lparr>event := (event app)\<lparr>ev_beforeHandle := ev_beforeHandle (event app) @ [h]\<rparr>\<rparr>"
| "on (AfterHandle h) app =
     app\<lparr>event := (event app)\<lparr>ev_afterHandle := ev_afterHandle (event app) @ [h]\<rparr>\<rparr>"
| "on (OnError h) app = app\<lparr>event := (event app)\<lparr>ev_error := ev_error (event app) @ [h]\<rparr>\<rparr>"
| "on (Stop h) app = app\<lparr>event := (event app)\<lparr>ev_stop := ev_stop (event app) @ [h]\<rparr>\<rparr>"

subsection \<open>State and models\<close>

text \<open>
  The store is a plain object (\<^verbatim>\<open>store = {}\<close>), so \<^verbatim>\<open>name in this.store\<close> holds
  for its own properties and for the names every plain object inherits from
  \<^verbatim>\<open>Object.prototype\<close>. The registry of models is made by \<^verbatim>\<open>Object.create(null)\<close> and
  inherits nothing.
\<close>

definition Object_prototype_names :: "string list" where
  "Object_prototype_names =
     [''constructor'', ''hasOwnProperty'', ''isPrototypeOf'', ''propertyIsEnumerable'',
      ''toLocaleString'', ''toString'', ''valueOf'', ''__proto__'', ''__defineGetter__'',
      ''__defineSetter__'', ''__lookupGetter__'', ''__lookupSetter__'']"

definition in_plain_object :: "string \<Rightarrow> (string \<times> jsval) list \<Rightarrow> bool" where
  "in_plain_object name obj = (name \<in> fst ` set obj \<or> name \<in> set Object_prototype_names)"

text \<open>\<^verbatim>\<open>if (!(name in this.store)) this.store[name] = value\<close>\<close>

definition state :: "string \<Rightarrow> jsval \<Rightarrow> elysia \<Rightarrow> elysia" where
  "state name v app =
     (if in_plain_object name (store app) then app
      else app\<lparr>decorators := (decorators app)\<lparr>c_store := store app @ [(name, v)]\<rparr>\<rparr>)"

text \<open>\<^verbatim>\<open>Object.entries(record).forEach(([key, value]) => { if (!(key in defs)) defs[key] = value })\<close>\<close>

fun setModel_entries :: "(string \<times> tschema) list \<Rightarrow> (string \<times> tschema) list \<Rightarrow> (string \<times> tschema) list" where
  "setModel_entries [] ds = ds"
| "setModel_entries ((key, v) # rest) ds =
     setModel_entries rest (if key \<in> fst ` set ds then ds else ds @ [(key, v)])"

definition setModel :: "(string \<times> tschema) list \<Rightarrow> elysia \<Rightarrow> elysia" where
  "setModel record app = app\<lparr>defs := setModel_entries record (defs app)\<rparr>"

subsection \<open>Scopes\<close>

text \<open>
  \<open>group\<close> and \<open>guard\<close> make a new instance whose store is the parent's, run the
  callback on it and register the routes it collected on the parent. The callback is a
  function from the instance it is given to the instance it returns (every builder
  method returns \<^verbatim>\<open>this\<close>); what it wrote to the store is in the parent's store
  afterwards, the store being one object. The source re-points \<^verbatim>\<open>this.store\<close> of the
  child only; the child's own Context object is never used, requests being handled by
  the parent.
\<close>

definition child_instance :: "elysia \<Rightarrow> elysia" where
  "child_instance app =
     new_Elysia\<lparr>decorators := (decorators new_Elysia)\<lparr>c_store := store app\<rparr>\<rparr>"

definition fold_request :: "elysia \<Rightarrow> elysia \<Rightarrow> elysia" where
  "fold_request sandbox app =
     (if ev_request (event sandbox) \<noteq> []
      then app\<lparr>event := (event app)
              \<lparr>ev_request := ev_request (event app) @ ev_request (event sandbox)\<rparr>\<rparr>
      else app)"

definition share_store :: "elysia \<Rightarrow> elysia \<Rightarrow> elysia" where
  "share_store sandbox app = app\<lparr>decorators := (decorators app)\<lparr>c_store := store sandbox\<rparr>\<rparr>"

definition group_path :: "string \<Rightarrow> string \<Rightarrow> string" where
  "group_path prefix originalPath = (if originalPath = ''/'' then prefix else prefix @ originalPath)"

definition error_only :: "error_handler list \<Rightarrow> local_hook" where
  "error_only es =
     \<lparr>l_schema = None, l_parse = None, l_transform = None, l_beforeHandle = None,
      l_afterHandle = None, l_error = Some (Many es)\<rparr>"

definition group :: "string \<Rightarrow> (elysia \<Rightarrow> elysia) \<Rightarrow> elysia \<Rightarrow> elysia" where
  "group prefix run app =
     (let sandbox = run (child_instance app);
          app1 = setModel (defs sandbox) (fold_request sandbox (share_store sandbox app))
      in fold (\<lambda>r a.
                 addHandler (ir_method r) (group_path prefix (ir_path r)) (ir_handler r)
                   (Some (of_registered
                      (mergeHook (of_registered (ir_hooks r))
                         (Some (error_only (ev_error (event sandbox))))))) a)
              (routes sandbox) app1)"

definition guard :: "local_hook \<Rightarrow> (elysia \<Rightarrow> elysia) \<Rightarrow> elysia \<Rightarrow> elysia" where
  "guard hook run app =
     (let sandbox = run (child_instance app);
          app1 = setModel (defs sandbox) (fold_request sandbox (share_store sandbox app))
      in fold (\<lambda>r a.
                 addHandler (ir_method r) (ir_path r) (ir_handler r)
                   (Some (of_registered (mergeHook hook (Some (of_registered (ir_hooks r)))))) a)
              (routes sandbox) app1)"

section \<open>The request lifecycle: \<open>handle\<close>\<close>

subsection \<open>Collaborators of body decoding\<close>

text \<open>
  The query-string parser and the form decoder are external. The model splits at
  \<^verbatim>\<open>&\<close> and at the first \<^verbatim>\<open>=\<close> without percent-decoding; a repeated key becomes an
  array, as for the entries of a form.
\<close>

fun split_on :: "char \<Rightarrow> string \<Rightarrow> string list" where
  "split_on d [] = [[]]"
| "split_on d (c # cs) =
     (if c = d then [] # split_on d cs
      else (case split_on d cs of [] \<Rightarrow> [[c]] | w # ws \<Rightarrow> (c # w) # ws))"

text \<open>
  \<^verbatim>\<open>for (const key of form.keys()) { if (key in body) continue; const value = form.getAll(key);
  body[key] = value.length === 1 ? value[0] : value }\<close>
\<close>

fun getAll :: "(string \<times> jsval) list \<Rightarrow> string \<Rightarrow> jsval list" where
  "getAll [] key = []"
| "getAll ((k, v) # form) key = (if k = key then v # getAll form key else getAll form key)"

fun form_keys :: "string list \<Rightarrow> (string \<times> jsval) list \<Rightarrow> (string \<times> jsval) list \<Rightarrow> (string \<times> jsval) list" where
  "form_keys [] form body = body"
| "form_keys (key # keys) form body =
     form_keys keys form
       (if key \<in> fst ` set body then body
        else body @ [(key, case getAll form key of [v] \<Rightarrow> v | vs \<Rightarrow> VArr vs)])"

definition form_body :: "(string \<times> jsval) list \<Rightarrow> jsval" where
  "form_body form = VObj (form_keys (map fst form) form [])"

definition parseQuery :: "string \<Rightarrow> jsval" where
  "parseQuery s =
     form_body
       (map (\<lambda>p. (takeWhile (\<lambda>c. c \<noteq> CHR ''='') p,
                   VStr (drop 1 (dropWhile (\<lambda>c. c \<noteq> CHR ''='') p))))
            (filter (\<lambda>p. p \<noteq> []) (split_on CHR ''&'' s)))"

text \<open>The deserializer of the function bridge is external: the value under \<^verbatim>\<open>json\<close>.\<close>

fun superjsonDeseiralize :: "jsval \<Rightarrow> jsval" where
  "superjsonDeseiralize (VObj kvs) = (case map_of kvs ''json'' of Some v \<Rightarrow> v | None \<Rightarrow> VUndefined)"
| "superjsonDeseiralize v = VUndefined"

subsection \<open>The stages of the try block\<close>

text \<open>
  The global request hooks: the first result that maps to a response ends the request.
\<close>

fun run_request :: "handler list \<Rightarrow> context \<Rightarrow> (js_error + response option) \<times> context" where
  "run_request [] c = (Inr None, c)"
| "run_request (h # hs) c =
     (case h c of
        (Inl e, c1) \<Rightarrow> (Inl e, c1)
      | (Inr response, c1) \<Rightarrow>
          (case mapEarlyResponse response (c_set c1) of
             Some r \<Rightarrow> (Inr (Some r), c1)
           | None \<Rightarrow> run_request hs c1))"

text \<open>
  The parse hooks, read from \<^verbatim>\<open>this.event.parse\<close>: the first result that is not
  \<^verbatim>\<open>undefined\<close> is the body.
\<close>

fun run_parse :: "body_parser list \<Rightarrow> string \<Rightarrow> context \<Rightarrow> (js_error + jsval) \<times> context" where
  "run_parse [] contentType c = (Inr VUndefined, c)"
| "run_parse (p # ps) contentType c =
     (case p c contentType of
        (Inl e, c1) \<Rightarrow> (Inl e, c1)
      | (Inr temp, c1) \<Rightarrow>
          (if temp = VUndefined then run_parse ps contentType c1 else (Inr temp, c1)))"

text \<open>The \<^verbatim>\<open>switch (contentType)\<close> that decodes the body when no parse hook did.\<close>

definition default_body :: "string \<Rightarrow> request \<Rightarrow> js_error + jsval" where
  "default_body contentType request =
     (if contentType = ''application/json'' then req_json request
      else if contentType = ''text/plain'' then Inr (VStr (req_text request))
      else if contentType = ''application/x-www-form-urlencoded''
        then Inr (parseQuery (req_text request))
      else if contentType = ''multipart/form-data'' then Inr (form_body (req_form request))
      else if contentType = ''elysia/fn''
        then (case req_json request of Inl e \<Rightarrow> Inl e | Inr v \<Rightarrow> Inr (superjsonDeseiralize v))
      else Inr VUndefined)"

definition parse_body ::
  "body_parser list \<Rightarrow> request \<Rightarrow> context \<Rightarrow> (js_error + jsval) \<times> context" where
  "parse_body parsers request c =
     (if req_method request = ''GET'' then (Inr VUndefined, c)
      else (case map_of (req_headers request) ''content-type'' of
              None \<Rightarrow> (Inr VUndefined, c)
            | Some contentType0 \<Rightarrow>
                (if contentType0 = [] then (Inr VUndefined, c)
                 else (let contentType = takeWhile (\<lambda>ch. ch \<noteq> CHR '';'') contentType0
                       in case run_parse parsers contentType c of
                            (Inl e, c1) \<Rightarrow> (Inl e, c1)
                          | (Inr body, c1) \<Rightarrow>
                              (if body = VUndefined then (default_body contentType request, c1)
                               else (Inr body, c1))))))"

text \<open>The transform hooks of the route; what they return is not looked at.\<close>

fun run_transform :: "handler list \<Rightarrow> context \<Rightarrow> (js_error + unit) \<times> context" where
  "run_transform [] c = (Inr (), c)"
| "run_transform (h # hs) c =
     (case h c of
        (Inl e, c1) \<Rightarrow> (Inl e, c1)
      | (Inr operation, c1) \<Rightarrow> run_transform hs c1)"

text \<open>
  \<^verbatim>\<open>if (validator.x?.Check(value) === false) throw createValidationError(kind, validator.x, value)\<close>
\<close>

definition check_field :: "string \<Rightarrow> type_check option \<Rightarrow> jsval \<Rightarrow> js_error option" where
  "check_field kind validator v =
     (case validator of
        None \<Rightarrow> None
      | Some t \<Rightarrow> (if Check t v then None else Some (createValidationError kind t v)))"

text \<open>
  The validation block. The header object is built from the request's headers and
  checked by \<^verbatim>\<open>validator.headers\<close>; the body checked is the local variable
  \<^verbatim>\<open>body\<close>, params and query are read from the Context. The first failed check throws.
\<close>

definition header_object :: "request \<Rightarrow> jsval" where
  "header_object request = VObj (map (\<lambda>(k, v). (k, VStr v)) (req_headers request))"

definition validate ::
  "schema_validator option \<Rightarrow> request \<Rightarrow> context \<Rightarrow> jsval \<Rightarrow> js_error option" where
  "validate validator request c body =
     (case validator of
        None \<Rightarrow> None
      | Some v \<Rightarrow>
          first_some
            [check_field ''header'' (v_headers v) (header_object request),
             check_field ''params'' (v_params v) (c_params c),
             check_field ''query'' (v_query v) (c_query c),
             check_field ''body'' (v_body v) body])"

text \<open>
  After a \<^verbatim>\<open>beforeHandle\<close> hook returned a value: every \<^verbatim>\<open>afterHandle\<close> hook is
  called with the running value, and a truthy result replaces it.
\<close>

fun run_afterHandle_early ::
  "after_handler list \<Rightarrow> retval \<Rightarrow> context \<Rightarrow> (js_error + retval) \<times> context" where
  "run_afterHandle_early [] response c = (Inr response, c)"
| "run_afterHandle_early (h # hs) response c =
     (case h c response of
        (Inl e, c1) \<Rightarrow> (Inl e, c1)
      | (Inr newResponse, c1) \<Rightarrow>
          run_afterHandle_early hs (if retval_truthy newResponse then newResponse else response) c1)"

fun run_beforeHandle ::
  "handler list \<Rightarrow> after_handler list \<Rightarrow> context \<Rightarrow> (js_error + response option) \<times> context" where
  "run_beforeHandle [] afterHandle c = (Inr None, c)"
| "run_beforeHandle (h # hs) afterHandle c =
     (case h c of
        (Inl e, c1) \<Rightarrow> (Inl e, c1)
      | (Inr response, c1) \<Rightarrow>
          (if retval_nullish response then run_beforeHandle hs afterHandle c1
           else (case run_afterHandle_early afterHandle response c1 of
                   (Inl e, c2) \<Rightarrow> (Inl e, c2)
                 | (Inr response1, c2) \<Rightarrow>
                     (case mapEarlyResponse response1 (c_set c2) of
                        Some result \<Rightarrow> (Inr (Some result), c2)
                      | None \<Rightarrow> run_beforeHandle hs afterHandle c2))))"

text \<open>
  \<^verbatim>\<open>if (validator?.response?.Check(response) === false)\<close>: \<^verbatim>\<open>validator.response\<close> is the
  record from status to validator, so its property \<^verbatim>\<open>Check\<close> is not a function (no
  status is named \<^verbatim>\<open>Check\<close>, and an entry would be a validator object, not a method),
  and calling it throws a \<^verbatim>\<open>TypeError\<close>.
\<close>

definition check_response :: "schema_validator option \<Rightarrow> retval \<Rightarrow> js_error option" where
  "check_response validator response =
     (case validator of
        None \<Rightarrow> None
      | Some v \<Rightarrow>
          (case v_response v of
             None \<Rightarrow> None
           | Some record \<Rightarrow> Some (TypeError ''validator.response.Check is not a function'')))"

text \<open>
  The \<^verbatim>\<open>afterHandle\<close> hooks over the handler's result: the first result that maps to
  a response is returned.
\<close>

fun run_afterHandle ::
  "after_handler list \<Rightarrow> retval \<Rightarrow> context \<Rightarrow> (js_error + response option) \<times> context" where
  "run_afterHandle [] response c = (Inr None, c)"
| "run_afterHandle (h # hs) response c =
     (case h c response of
        (Inl e, c1) \<Rightarrow> (Inl e, c1)
      | (Inr newResponse, c1) \<Rightarrow>
          (case mapEarlyResponse newResponse (c_set c1) of
             Some result \<Rightarrow> (Inr (Some result), c1)
           | None \<Rightarrow> run_afterHandle hs response c1))"

text \<open>\<^verbatim>\<open>if (hooks) for (...hooks.x...)\<close>: no hooks object, no iteration.\<close>

definition hooks_list :: "registered_hook option \<Rightarrow> (registered_hook \<Rightarrow> 'a list) \<Rightarrow> 'a list" where
  "hooks_list hooks f = (case hooks of None \<Rightarrow> [] | Some h \<Rightarrow> f h)"

text \<open>
  After the handler returned: the check of its result, the \<^verbatim>\<open>afterHandle\<close> hooks,
  the response.
\<close>

definition respond :: "main_handler \<Rightarrow> retval \<Rightarrow> context \<Rightarrow> (js_error + response) \<times> context" where
  "respond mh response c =
     (case check_response (mh_validator mh) response of
        Some e \<Rightarrow> (Inl e, c)
      | None \<Rightarrow>
          (case run_afterHandle (hooks_list (mh_hooks mh) h_afterHandle) response c of
             (Inl e, c1) \<Rightarrow> (Inl e, c1)
           | (Inr (Some result), c1) \<Rightarrow> (Inr result, c1)
           | (Inr None, c1) \<Rightarrow> (Inr (mapResponse response (c_set c1)), c1)))"

text \<open>
  From the \<^verbatim>\<open>beforeHandle\<close> loop to the end of the try block: the hooks before the
  handler, then the handler and \<open>respond\<close>.
\<close>

definition handle_main :: "main_handler \<Rightarrow> context \<Rightarrow> (js_error + response) \<times> context" where
  "handle_main mh c =
     (case run_beforeHandle (hooks_list (mh_hooks mh) h_beforeHandle)
             (hooks_list (mh_hooks mh) h_afterHandle) c of
        (Inl e, c1) \<Rightarrow> (Inl e, c1)
      | (Inr (Some result), c1) \<Rightarrow> (Inr result, c1)
      | (Inr None, c1) \<Rightarrow>
          (case mh_handle mh c1 of
             (Inl e, c2) \<Rightarrow> (Inl e, c2)
           | (Inr response, c2) \<Rightarrow> respond mh response c2))"

text \<open>
  From the matched route to the end of the try block: body, params and query are
  assigned to the Context, then transform, validation and \<open>handle_main\<close>.
\<close>

definition handle_route ::
  "body_parser list \<Rightarrow> main_handler \<Rightarrow> jsval \<Rightarrow> string option \<Rightarrow> request \<Rightarrow> context \<Rightarrow>
   (js_error + response) \<times> context" where
  "handle_route parsers mh params query request c =
     (case parse_body parsers request c of
        (Inl e, c1) \<Rightarrow> (Inl e, c1)
      | (Inr body, c1) \<Rightarrow>
          (let c2 = c1\<lparr>c_body := body, c_params := params,
                      c_query := (case query of
                                    None \<Rightarrow> VObj []
                                  | Some q \<Rightarrow> if q = [] then VObj [] else parseQuery q)\<rparr>
           in case run_transform (hooks_list (mh_hooks mh) h_transform) c2 of
                (Inl e, c3) \<Rightarrow> (Inl e, c3)
              | (Inr u, c3) \<Rightarrow>
                  (case validate (mh_validator mh) request c3 body of
                     Some e \<Rightarrow> (Inl e, c3)
                   | None \<Rightarrow> handle_main mh c3)))"

text \<open>
  The try block. A thrown error comes with the value of the local variable
  \<^verbatim>\<open>handleErrors\<close> at that moment: \<^verbatim>\<open>undefined\<close> until a route is matched, then the
  route's error hooks when the route has a hooks object.
\<close>

definition hooks_error :: "registered_hook option \<Rightarrow> error_handler list option" where
  "hooks_error hooks = (case hooks of None \<Rightarrow> None | Some h \<Rightarrow> Some (h_error h))"

text \<open>After the request hooks: the route is looked up and run.\<close>

definition handle_match ::
  "elysia \<Rightarrow> request \<Rightarrow> context \<Rightarrow>
   ((js_error \<times> error_handler list option) + response) \<times> context" where
  "handle_match app request c =
     (case req_url request of
        None \<Rightarrow> (Inl (Error ''NOT_FOUND'' None, None), c)
      | Some (path, query) \<Rightarrow>
          (case coalesce (router_match (router app) (req_method request) path)
                  (router_match (router app) ''ALL'' path) of
             None \<Rightarrow> (Inl (Error ''NOT_FOUND'' None, None), c)
           | Some (mh, params) \<Rightarrow>
               (case handle_route (ev_parse (event app)) mh params query request c of
                  (Inl e, c1) \<Rightarrow> (Inl (e, hooks_error (mh_hooks mh)), c1)
                | (Inr response, c1) \<Rightarrow> (Inr response, c1))))"

definition handle_try ::
  "elysia \<Rightarrow> request \<Rightarrow> context \<Rightarrow>
   ((js_error \<times> error_handler list option) + response) \<times> context" where
  "handle_try app request c =
     (case run_request (ev_request (event app)) c of
        (Inl e, c1) \<Rightarrow> (Inl (e, None), c1)
      | (Inr (Some response), c1) \<Rightarrow> (Inr response, c1)
      | (Inr None, c1) \<Rightarrow> handle_match app request c1)"

subsection \<open>The catch block and \<open>handleError\<close>\<close>

definition with_scope :: "error_scope \<Rightarrow> context \<Rightarrow> context" where
  "with_scope sc c = c\<lparr>c_set := es_set sc, c_store := es_store sc\<rparr>"

text \<open>The route's error hooks: the first result that maps to a response is returned.\<close>

fun run_handleErrors ::
  "error_handler list \<Rightarrow> request \<Rightarrow> js_error \<Rightarrow> string \<Rightarrow> error_scope \<Rightarrow>
   (js_error + response option) \<times> error_scope" where
  "run_handleErrors [] request error code sc = (Inr None, sc)"
| "run_handleErrors (h # hs) request error code sc =
     (case h request error code sc of
        (Inl e, sc1) \<Rightarrow> (Inl e, sc1)
      | (Inr handled, sc1) \<Rightarrow>
          (case mapEarlyResponse handled (es_set sc1) of
             Some response \<Rightarrow> (Inr (Some response), sc1)
           | None \<Rightarrow> run_handleErrors hs request error code sc1))"

text \<open>The loop of \<open>handleError\<close> over \<^verbatim>\<open>this.event.error\<close>.\<close>

fun run_event_error ::
  "error_handler list \<Rightarrow> request \<Rightarrow> js_error \<Rightarrow> error_scope \<Rightarrow>
   (js_error + response option) \<times> error_scope" where
  "run_event_error [] request error sc = (Inr None, sc)"
| "run_event_error (h # hs) request error sc =
     (case h request error (mapErrorCode (message error)) sc of
        (Inl e, sc1) \<Rightarrow> (Inl e, sc1)
      | (Inr response, sc1) \<Rightarrow>
          (if retval_nullish response then run_event_error hs request error sc1
           else (Inr (Some (mapResponse response (es_set sc1))), sc1)))"

text \<open>
  \<^verbatim>\<open>new Response(typeof error.cause === 'string' ? error.cause : error.message,
  {headers: set.headers, status: mapErrorStatus(mapErrorCode(error.message))})\<close>
\<close>

definition default_error_response :: "js_error \<Rightarrow> ctx_set \<Rightarrow> response" where
  "default_error_response error st =
     \<lparr>r_status = mapErrorStatus (mapErrorCode (message error)),
      r_headers = set_headers st,
      r_content_type = None,
      r_body = VStr (case cause error of Some c \<Rightarrow> c | None \<Rightarrow> message error)\<rparr>"

definition handleError ::
  "elysia \<Rightarrow> request \<Rightarrow> js_error \<Rightarrow> error_scope \<Rightarrow> (js_error + response) \<times> error_scope" where
  "handleError app request error sc =
     (case run_event_error (ev_error (event app)) request error sc of
        (Inl e, sc1) \<Rightarrow> (Inl e, sc1)
      | (Inr (Some response), sc1) \<Rightarrow> (Inr response, sc1)
      | (Inr None, sc1) \<Rightarrow> (Inr (default_error_response error (es_set sc1)), sc1))"

text \<open>
  The catch block: \<^verbatim>\<open>if (!set.status || set.status < 300) set.status = 500\<close>, the
  route's error hooks when \<^verbatim>\<open>handleErrors\<close> is set, then \<open>handleError\<close>.
\<close>

definition catch_scope :: "context \<Rightarrow> error_scope" where
  "catch_scope c =
     (let set0 = c_set c
      in \<lparr>es_set = (if set_status set0 = 0 \<or> set_status set0 < 300
                     then set0\<lparr>set_status := 500\<rparr> else set0),
          es_store = c_store c\<rparr>)"

definition handle_catch ::
  "elysia \<Rightarrow> request \<Rightarrow> error_handler list option \<Rightarrow> js_error \<Rightarrow> context \<Rightarrow>
   (js_error + response) \<times> context" where
  "handle_catch app request handleErrors error c =
     (let code = mapErrorCode (message error)
      in case run_handleErrors (case handleErrors of None \<Rightarrow> [] | Some hs \<Rightarrow> hs)
                request error code (catch_scope c) of
           (Inl e, sc1) \<Rightarrow> (Inl e, with_scope sc1 c)
         | (Inr (Some response), sc1) \<Rightarrow> (Inr response, with_scope sc1 c)
         | (Inr None, sc1) \<Rightarrow>
             (case handleError app request error sc1 of
                (r, sc2) \<Rightarrow> (r, with_scope sc2 c)))"

subsection \<open>\<open>handle\<close>\<close>

text \<open>
  The Context of a request is the application's \<open>decorators\<close> object itself, with
  \<^verbatim>\<open>request\<close> and \<^verbatim>\<open>set\<close> assigned at entry. The result is the response, or the error
  with which the returned promise rejects, and the application with the object as the
  request left it.
\<close>

definition entry_context :: "elysia \<Rightarrow> request \<Rightarrow> context" where
  "entry_context app request =
     (decorators app)\<lparr>c_request := Some request,
                       c_set := \<lparr>set_status = 200, set_headers = []\<rparr>\<rparr>"

definition handle :: "elysia \<Rightarrow> request \<Rightarrow> (js_error + response) \<times> elysia" where
  "handle app request =
     (let c = entry_context app request
      in case handle_try app request c of
           (Inr response, c1) \<Rightarrow> (Inr response, app\<lparr>decorators := c1\<rparr>)
         | (Inl (error, handleErrors), c1) \<Rightarrow>
             (case handle_catch app request handleErrors error c1 of
                (r, c2) \<Rightarrow> (r, app\<lparr>decorators := c2\<rparr>)))"

section \<open>Vocabulary of the properties\<close>

text \<open>
  \<open>all_nullish hs c\<close> is \<open>Some c1\<close> when every hook of \<open>hs\<close>, called in order
  from the Context \<open>c\<close>, returns \<^verbatim>\<open>null\<close> or \<^verbatim>\<open>undefined\<close> and none throws, \<open>c1\<close>
  being the Context after the last one.
\<close>

fun all_nullish :: "handler list \<Rightarrow> context \<Rightarrow> context option" where
  "all_nullish [] c = Some c"
| "all_nullish (h # hs) c =
     (case h c of
        (Inl e, c1) \<Rightarrow> None
      | (Inr v, c1) \<Rightarrow> (if retval_nullish v then all_nullish hs c1 else None))"

text \<open>
  \<open>all_decline hs request error code sc\<close> is \<open>Some sc1\<close> when every error hook of
  \<open>hs\<close>, called in order from the scope \<open>sc\<close>, returns \<^verbatim>\<open>null\<close> or \<^verbatim>\<open>undefined\<close>
  and none throws, \<open>sc1\<close> being the scope after the last one.
\<close>

fun all_decline ::
  "error_handler list \<Rightarrow> request \<Rightarrow> js_error \<Rightarrow> string \<Rightarrow> error_scope \<Rightarrow> error_scope option" where
  "all_decline [] request error code sc = Some sc"
| "all_decline (h # hs) request error code sc =
     (case h request error code sc of
        (Inl e, sc1) \<Rightarrow> None
      | (Inr v, sc1) \<Rightarrow>
          (if retval_nullish v then all_decline hs request error code sc1 else None))"

text \<open>
  \<open>raised app request\<close> is \<open>Some (error, hs, c)\<close> when the try block of \<open>handle\<close>
  throws \<open>error\<close> with the Context \<open>c\<close>: \<open>hs\<close> are the error hooks in the entry of
  the matched route, none when the error is thrown before a route is matched (by a
  request hook, or \<^verbatim>\<open>NOT_FOUND\<close>) or the route has no hooks object.
\<close>

definition raised :: "elysia \<Rightarrow> request \<Rightarrow> (js_error \<times> error_handler list \<times> context) option" where
  "raised app request =
     (case run_request (ev_request (event app)) (entry_context app request) of
        (Inl e, c) \<Rightarrow> Some (e, [], c)
      | (Inr (Some response), c) \<Rightarrow> None
      | (Inr None, c) \<Rightarrow>
          (case req_url request of
             None \<Rightarrow> Some (Error ''NOT_FOUND'' None, [], c)
           | Some (path, query) \<Rightarrow>
               (case coalesce (router_match (router app) (req_method request) path)
                       (router_match (router app) ''ALL'' path) of
                  None \<Rightarrow> Some (Error ''NOT_FOUND'' None, [], c)
                | Some (mh, params) \<Rightarrow>
                    (case handle_route (ev_parse (event app)) mh params query request c of
                       (Inl e, c1) \<Rightarrow>
                         Some (e, (case mh_hooks mh of None \<Rightarrow> [] | Some hooks \<Rightarrow> h_error hooks), c1)
                     | (Inr response, c1) \<Rightarrow> None))))"

section \<open>Applications and requests of the examples and tests\<close>

text \<open>Callbacks: \<^verbatim>\<open>() => v\<close>, \<^verbatim>\<open>() => { throw e }\<close>, \<^verbatim>\<open>({ body }) => body\<close>.\<close>

definition returns :: "jsval \<Rightarrow> handler" where
  "returns v c = (Inr (Val v), c)"

definition throws :: "js_error \<Rightarrow> handler" where
  "throws e c = (Inl e, c)"

definition echo_body :: handler where
  "echo_body c = (Inr (Val (c_body c)), c)"

definition no_schema :: typed_schema where
  "no_schema =
     \<lparr>s_body = None, s_headers = None, s_header = None, s_params = None, s_query = None,
      s_response = None\<rparr>"

definition no_hook :: local_hook where
  "no_hook =
     \<lparr>l_schema = None, l_parse = None, l_transform = None, l_beforeHandle = None,
      l_afterHandle = None, l_error = None\<rparr>"

text \<open>A request with no body, and a request with a text body.\<close>

definition get_request :: "string \<Rightarrow> string option \<Rightarrow> (string \<times> string) list \<Rightarrow> request" where
  "get_request path query hs =
     \<lparr>req_method = ''GET'', req_url = Some (path, query), req_headers = hs,
      req_json = Inl (Error ''Unexpected end of JSON input'' None), req_text = [],
      req_form = []\<rparr>"

definition post_text :: "string \<Rightarrow> string \<Rightarrow> request" where
  "post_text path txt =
     \<lparr>req_method = ''POST'', req_url = Some (path, None),
      req_headers = [(''content-type'', ''text/plain'')],
      req_json = Inl (Error ''Unexpected token'' None), req_text = txt, req_form = []\<rparr>"

subsection \<open>The nested guard example\<close>

text \<open>
  The example application with nested guards (\<^verbatim>\<open>part_000\<close>), the handler of the
  leaf route \<^verbatim>\<open>/a\<close> left open. \<^verbatim>\<open>t.Object({name: t.String()})\<close> is
  \<open>TObject [(''name'', TString)] None\<close>.
\<close>

definition nested_guard_app :: "handler \<Rightarrow> elysia" where
  "nested_guard_app leaf =
     get ''*'' (returns (VStr ''Star now work'')) None
       (guard (no_hook\<lparr>l_schema := Some (no_schema
                  \<lparr>s_query := Some (Inline (TObject [(''name'', TString)] None))\<rparr>)\<rparr>)
          (\<lambda>app.
             guard (no_hook\<lparr>l_schema := Some (no_schema
                      \<lparr>s_headers := Some (Inline (TObject [(''a'', TString)] None))\<rparr>)\<rparr>)
               (\<lambda>app. get ''/a'' leaf
                  (Some (no_hook
                     \<lparr>l_beforeHandle := Some (One (returns VUndefined)),
                      l_schema := Some (no_schema
                        \<lparr>s_body := Some (Inline (TObject [(''username'', TString)] None))\<rparr>)\<rparr>))
                  app)
               (get ''/'' (returns (VStr ''A''))
                  (Some (no_hook
                     \<lparr>l_beforeHandle := Some (One (returns VUndefined)),
                      l_schema := Some (no_schema
                        \<lparr>s_query := Some (Inline (TObject [(''a'', TString)] None))\<rparr>)\<rparr>))
                  app))
          new_Elysia)"

text \<open>
  What the router holds for the leaf route \<^verbatim>\<open>/a\<close> of the example, and the Context
  of a \<^verbatim>\<open>GET\<close> request after a route without parameters is matched in an
  application whose store is empty.
\<close>

definition leaf_validator :: schema_validator where
  "leaf_validator =
     \<lparr>v_body = Some (TypeCheck (TObject [(''username'', TString)] (Some False))),
      v_headers = None, v_header = None, v_params = None,
      v_query = Some (TypeCheck (TObject [(''name'', TString)] (Some False))),
      v_response = None\<rparr>"

definition leaf_route :: "handler \<Rightarrow> main_handler" where
  "leaf_route leaf =
     \<lparr>mh_handle = leaf,
      mh_hooks = Some
        \<lparr>h_schema = Some
           \<lparr>s_body = Some (Inline (TObject [(''username'', TString)] None)),
            s_headers = None, s_header = None, s_params = None,
            s_query = Some (Inline (TObject [(''name'', TString)] None)),
            s_response = None\<rparr>,
         h_transform = [], h_beforeHandle = [returns VUndefined],
         h_afterHandle = [], h_parse = [], h_error = []\<rparr>,
      mh_validator = Some leaf_validator\<rparr>"

definition matched_context :: "request \<Rightarrow> string option \<Rightarrow> context" where
  "matched_context request query =
     (decorators new_Elysia)
       \<lparr>c_request := Some request,
        c_set := \<lparr>set_status = 200, set_headers = []\<rparr>,
        c_body := VUndefined, c_params := VObj [],
        c_query := (case query of None \<Rightarrow> VObj []
                    | Some q \<Rightarrow> if q = [] then VObj [] else parseQuery q)\<rparr>"

subsection \<open>A route with a header schema, a route with a response schema\<close>

text \<open>\<^verbatim>\<open>() => { called = true; return v }\<close>, the flag kept in the store.\<close>

definition mark_called :: "jsval \<Rightarrow> handler" where
  "mark_called v c =
     (Inr (Val v), c\<lparr>c_store := AList.update ''called'' (VBool True) (c_store c)\<rparr>)"

definition header_schema_app :: elysia where
  "header_schema_app =
     get ''/'' (mark_called (VStr ''A''))
       (Some (no_hook\<lparr>l_schema := Some (no_schema
                \<lparr>s_headers := Some (Inline (TObject [(''a'', TString)] None))\<rparr>)\<rparr>))
       new_Elysia"

definition response_schema_app :: "jsval \<Rightarrow> elysia" where
  "response_schema_app v =
     get ''/'' (mark_called v)
       (Some (no_hook\<lparr>l_schema := Some (no_schema\<lparr>s_response := Some (RSchema TString)\<rparr>)\<rparr>))
       new_Elysia"

subsection \<open>The nested guard scenario\<close>

text \<open>
  The scenario of the nested guards by its description: route \<^verbatim>\<open>/\<close> under a guard
  with the query schema \<^verbatim>\<open>{name: string}\<close>, and under it a guard with the header
  schema \<^verbatim>\<open>{a: string}\<close> around the route \<^verbatim>\<open>/a\<close>, whose handler is left open.
\<close>

definition guard_scenario_app :: "handler \<Rightarrow> elysia" where
  "guard_scenario_app leaf =
     guard (no_hook\<lparr>l_schema := Some (no_schema
                \<lparr>s_query := Some (Inline (TObject [(''name'', TString)] None))\<rparr>)\<rparr>)
       (\<lambda>app.
          guard (no_hook\<lparr>l_schema := Some (no_schema
                   \<lparr>s_headers := Some (Inline (TObject [(''a'', TString)] None))\<rparr>)\<rparr>)
            (\<lambda>app. get ''/a'' leaf None app)
            (get ''/'' (returns (VStr ''A'')) None app))
       new_Elysia"

subsection \<open>Parse hooks\<close>

definition parser_const :: "string \<Rightarrow> body_parser" where
  "parser_const s c contentType = (Inr (VStr s), c)"

definition parse_order_app :: elysia where
  "parse_order_app =
     post ''/'' echo_body None
       (onParse (parser_const ''second'') (onParse (parser_const ''first'') new_Elysia))"

definition echo_app :: elysia where
  "echo_app = post ''/'' echo_body None new_Elysia"

subsection \<open>Error hooks\<close>

definition recover :: "string \<Rightarrow> error_handler" where
  "recover s request error code sc = (Inr (Val (VStr s)), sc)"

definition failing_app :: elysia where
  "failing_app = get ''/'' (throws (Error ''boom'' None)) None new_Elysia"

text \<open>An error hook that returns nothing, and the scope a catch block starts from.\<close>

definition decline :: error_handler where
  "decline request error code sc = (Inr (Val VUndefined), sc)"

definition error_scope_500 :: error_scope where
  "error_scope_500 = \<lparr>es_set = \<lparr>set_status = 500, set_headers = []\<rparr>, es_store = []\<rparr>"

text \<open>
  A route with its own error hook, registered after a global error hook that returns a
  value (\<open>route_first_app\<close>) and on its own (\<open>route_only_app\<close>).
\<close>

definition route_only_app :: elysia where
  "route_only_app =
     get ''/'' (throws (Error ''boom'' None))
       (Some (no_hook\<lparr>l_error := Some (One (recover ''route''))\<rparr>))
       new_Elysia"

definition route_first_app :: elysia where
  "route_first_app =
     get ''/'' (throws (Error ''boom'' None))
       (Some (no_hook\<lparr>l_error := Some (One (recover ''route''))\<rparr>))
       (onError (recover ''global'') new_Elysia)"

text \<open>
  After a global error hook that returns nothing: a route whose own error hook returns
  a value, and a route whose own error hook returns nothing, with and without a global
  error hook registered afterwards that returns a value.
\<close>

definition route_hook_app :: elysia where
  "route_hook_app =
     onError (recover ''global'')
       (get ''/'' (throws (Error ''boom'' None))
          (Some (no_hook\<lparr>l_error := Some (One (recover ''route''))\<rparr>))
          (onError decline new_Elysia))"

definition declining_app :: elysia where
  "declining_app =
     get ''/'' (throws (Error ''boom'' None))
       (Some (no_hook\<lparr>l_error := Some (One decline)\<rparr>))
       (onError decline new_Elysia)"

definition global_hook_app :: elysia where
  "global_hook_app = onError (recover ''global'') declining_app"

subsection \<open>Hooks that read what is in the Context\<close>

text \<open>\<^verbatim>\<open>(context) => context.query\<close>, registered as a request hook.\<close>

definition echo_query :: handler where
  "echo_query c = (Inr (Val (c_query c)), c)"

definition query_hook_app :: elysia where
  "query_hook_app = get ''/'' (returns (VStr ''A'')) None (onRequest echo_query new_Elysia)"

subsection \<open>The group test: a counter in the store\<close>

text \<open>
  \<^verbatim>\<open>({ store }) => { store.counter++ }\<close> and \<^verbatim>\<open>({ store: { counter } }) => counter\<close>
  (\<^verbatim>\<open>part_003\<close>), for a store whose counter is a number.
\<close>

definition increment_counter :: handler where
  "increment_counter c =
     (Inr (Val VUndefined),
      c\<lparr>c_store := (case map_of (c_store c) ''counter'' of
                      Some (VNum n) \<Rightarrow> AList.update ''counter'' (VNum (n + 1)) (c_store c)
                    | _ \<Rightarrow> c_store c)\<rparr>)"

definition read_counter :: handler where
  "read_counter c =
     (Inr (Val (case map_of (c_store c) ''counter'' of Some v \<Rightarrow> v | None \<Rightarrow> VUndefined)), c)"

definition counter_app :: elysia where
  "counter_app =
     group ''/counter''
       (\<lambda>app. get [] read_counter None
                 (onRequest increment_counter (state ''counter'' (VNum 0) app)))
       (get ''/'' (returns (VStr ''A'')) None new_Elysia)"

text \<open>
  The same with \<open>guard\<close>, and a child scope whose second request hook returns a
  value, in a parent that has a request hook of its own.
\<close>

definition counter_guard_app :: elysia where
  "counter_guard_app =
     guard no_hook
       (\<lambda>app. get ''/counter'' read_counter None
                 (onRequest increment_counter (state ''counter'' (VNum 0) app)))
       (get ''/'' (returns (VStr ''A'')) None new_Elysia)"

definition gate_scope :: "elysia \<Rightarrow> elysia" where
  "gate_scope app =
     get ''/x'' (returns (VStr ''X'')) None
       (onRequest (returns (VStr ''blocked''))
          (onRequest increment_counter (state ''counter'' (VNum 0) app)))"

definition gate_parent :: elysia where
  "gate_parent = get ''/'' (returns (VStr ''A'')) None (onRequest (returns VUndefined) new_Elysia)"

subsection \<open>Hooks before and after the handler\<close>

text \<open>\<^verbatim>\<open>(context, response) => response + '!'\<close>, for a string.\<close>

definition exclaim :: after_handler where
  "exclaim c response =
     (Inr (case response of Val (VStr s) \<Rightarrow> Val (VStr (s @ ''!'')) | _ \<Rightarrow> Val VUndefined), c)"

definition early_app :: elysia where
  "early_app =
     get ''/'' (mark_called (VStr ''handler''))
       (Some (no_hook
          \<lparr>l_beforeHandle :=
             Some (Many [returns VNull, returns (VStr ''early''), returns (VStr ''never'')]),
           l_afterHandle := Some (Many [exclaim, exclaim])\<rparr>))
       new_Elysia"

text \<open>What the router holds for the route of \<open>early_app\<close>.\<close>

definition early_route :: main_handler where
  "early_route =
     \<lparr>mh_handle = mark_called (VStr ''handler''),
      mh_hooks = Some
        \<lparr>h_schema = None, h_transform = [],
         h_beforeHandle = [returns VNull, returns (VStr ''early''), returns (VStr ''never'')],
         h_afterHandle = [exclaim, exclaim],
         h_parse = [], h_error = []\<rparr>,
      mh_validator = None\<rparr>"


section \<open>The nested guards\<close>

lemmas nested_guard_defs =
  nested_guard_app_def get_def guard_def addHandler_def Let_def child_instance_def
  new_Elysia_def setModel_def fold_request_def share_store_def store_def router_add_def
  mergeHook_def of_event_def of_registered_def clone_def mergeObjectArray_def
  getSchemaValidator_def getResponseSchemaValidator_def no_hook_def no_schema_def

lemma nested_guard_match:
  "router_match (router (nested_guard_app leaf)) ''GET'' ''/a'' = Some (leaf_route leaf, VObj [])"
  by (simp add: nested_guard_defs router_match_def leaf_route_def leaf_validator_def)

lemma nested_guard_event:
  "ev_request (event (nested_guard_app leaf)) = []
   \<and> ev_parse (event (nested_guard_app leaf)) = []
   \<and> ev_error (event (nested_guard_app leaf)) = []"
  by (simp add: nested_guard_defs)

lemma nested_guard_decorators:
  "decorators (nested_guard_app leaf) = decorators new_Elysia"
  by (simp add: nested_guard_defs)

text \<open>The body of a GET request is undefined, which the body schema rejects.\<close>

lemma leaf_validation_fails:
  "\<exists>kind why validator v.
     validate (Some leaf_validator) request c VUndefined =
       Some (ValidationError kind why validator v)"
  by (simp add: validate_def check_field_def createValidationError_def Let_def leaf_validator_def)

lemma handle_catch_validation_default:
  assumes "ev_error (event app) = []" and "c_set c = \<lparr>set_status = 200, set_headers = []\<rparr>"
  shows "handle_catch app request (Some []) (ValidationError kind why validator v) c =
           (Inr \<lparr>r_status = 400, r_headers = [], r_content_type = None, r_body = VStr why\<rparr>,
            c\<lparr>c_set := \<lparr>set_status = 500, set_headers = []\<rparr>\<rparr>)"
  using assms
  by (simp add: handle_catch_def handleError_def catch_scope_def with_scope_def
      default_error_response_def mapErrorStatus_def mapErrorCode_def)

lemma nested_guard_try:
  assumes "req_method request = ''GET''" and "req_url request = Some (''/a'', query)"
    and "validate (Some leaf_validator) request (matched_context request query) VUndefined = Some err"
  shows "handle_try (nested_guard_app leaf) request (entry_context (nested_guard_app leaf) request) =
           (Inl (err, Some []), matched_context request query)"
  using assms(1,2) assms(3) [unfolded matched_context_def] nested_guard_event [of leaf]
  by (simp add: handle_try_def handle_match_def nested_guard_match handle_route_def parse_body_def
      entry_context_def nested_guard_decorators matched_context_def hooks_list_def hooks_error_def
      leaf_route_def Let_def)

text \<open>
  The example as \<^verbatim>\<open>part_000\<close> writes it: whatever the handler of the leaf route and
  the headers of the request are, a \<^verbatim>\<open>GET\<close> request to \<^verbatim>\<open>/a\<close> raises a validation
  error and is answered with status 400, and the handler is not invoked (the response and
  the Context after the request are those of any other handler \<open>leaf'\<close>). The error is
  that of the query schema of the outer guard or, when the query passes, that of the
  body schema of the leaf route, the body of a \<^verbatim>\<open>GET\<close> request being \<^verbatim>\<open>undefined\<close>.
\<close>

lemma nested_guard_example_rejects:
  assumes "req_method request = ''GET''"
    and "req_url request = Some (''/a'', query)"
  shows "\<exists>kind why validator v c.
           handle_try (nested_guard_app leaf) request
               (entry_context (nested_guard_app leaf) request) =
             (Inl (ValidationError kind why validator v, Some []), c)
           \<and> fst (handle (nested_guard_app leaf) request) =
               Inr \<lparr>r_status = 400, r_headers = [], r_content_type = None, r_body = VStr why\<rparr>
           \<and> fst (handle (nested_guard_app leaf') request) =
               fst (handle (nested_guard_app leaf) request)
           \<and> decorators (snd (handle (nested_guard_app leaf') request)) =
               decorators (snd (handle (nested_guard_app leaf) request))"
proof -
  let ?c = "matched_context request query"
  obtain kind why validator v where
    e: "validate (Some leaf_validator) request ?c VUndefined =
          Some (ValidationError kind why validator v)"
    using leaf_validation_fails by blast
  have t: "handle_try (nested_guard_app l) request (entry_context (nested_guard_app l) request) =
             (Inl (ValidationError kind why validator v, Some []), ?c)" for l
    using nested_guard_try [OF assms(1,2) e, of l] by simp
  have s: "c_set ?c = \<lparr>set_status = 200, set_headers = []\<rparr>"
    by (simp add: matched_context_def)
  have k: "handle_catch (nested_guard_app l) request (Some [])
             (ValidationError kind why validator v) ?c =
           (Inr \<lparr>r_status = 400, r_headers = [], r_content_type = None, r_body = VStr why\<rparr>,
            ?c\<lparr>c_set := \<lparr>set_status = 500, set_headers = []\<rparr>\<rparr>)" for l
    using nested_guard_event [of l] s by (simp add: handle_catch_validation_default)
  have h: "handle (nested_guard_app l) request =
             (Inr \<lparr>r_status = 400, r_headers = [], r_content_type = None, r_body = VStr why\<rparr>,
              (nested_guard_app l)\<lparr>decorators := ?c\<lparr>c_set := \<lparr>set_status = 500, set_headers = []\<rparr>\<rparr>\<rparr>)"
    for l
    by (simp add: handle_def t k)
  show ?thesis
    using t [of leaf] h [of leaf] h [of leaf'] by auto
qed

text \<open>
  C1. The scenario as the claim describes it: the route \<^verbatim>\<open>/\<close> under a guard with the
  query schema \<^verbatim>\<open>{name: string}\<close>, and a nested guard with the header schema
  \<^verbatim>\<open>{a: string}\<close> around the route \<^verbatim>\<open>/a\<close>. The header schema of the nested guard is
  lost at registration: the merged schema of the route \<^verbatim>\<open>/a\<close> and its validators hold
  the query schema of the outer guard only (\<open>mergeHook\<close> writes the key \<^verbatim>\<open>header\<close> and
  reads the key \<^verbatim>\<open>headers\<close>). A \<^verbatim>\<open>GET\<close> request to \<^verbatim>\<open>/a?name=x\<close> without the header
  \<^verbatim>\<open>a\<close> is answered 200 by the leaf handler, whose flag is in the store afterwards. The
  query schema of the outer guard does reach the route: without \<^verbatim>\<open>name\<close> the answer is
  400. In the example of \<^verbatim>\<open>part_000\<close> the answer is 400 also when the header \<^verbatim>\<open>a\<close> is
  sent.
\<close>

theorem nested_guard_header_schema_lost:
  "map (\<lambda>r. (ir_path r, h_schema (ir_hooks r)))
       (routes (guard_scenario_app (mark_called (VStr ''A'')))) =
     [(''/'', Some \<lparr>s_body = None, s_headers = None, s_header = None, s_params = None,
                    s_query = Some (Inline (TObject [(''name'', TString)] None)),
                    s_response = None\<rparr>),
      (''/a'', Some \<lparr>s_body = None, s_headers = None, s_header = None, s_params = None,
                     s_query = Some (Inline (TObject [(''name'', TString)] None)),
                     s_response = None\<rparr>)]
   \<and> map (\<lambda>(m, p, mh). (p, mh_validator mh))
       (router (guard_scenario_app (mark_called (VStr ''A'')))) =
     [(''/'', Some \<lparr>v_body = None, v_headers = None, v_header = None, v_params = None,
                    v_query = Some (TypeCheck (TObject [(''name'', TString)] (Some False))),
                    v_response = None\<rparr>),
      (''/a'', Some \<lparr>v_body = None, v_headers = None, v_header = None, v_params = None,
                     v_query = Some (TypeCheck (TObject [(''name'', TString)] (Some False))),
                     v_response = None\<rparr>)]
   \<and> fst (handle (guard_scenario_app (mark_called (VStr ''A'')))
             (get_request ''/a'' (Some ''name=x'') [])) =
       Inr \<lparr>r_status = 200, r_headers = [], r_content_type = None, r_body = VStr ''A''\<rparr>
   \<and> store (snd (handle (guard_scenario_app (mark_called (VStr ''A'')))
             (get_request ''/a'' (Some ''name=x'') []))) = [(''called'', VBool True)]
   \<and> (case fst (handle (guard_scenario_app (mark_called (VStr ''A'')))
                   (get_request ''/a'' None [])) of
         Inl e \<Rightarrow> 0 | Inr r \<Rightarrow> r_status r) = 400
   \<and> store (snd (handle (guard_scenario_app (mark_called (VStr ''A'')))
             (get_request ''/a'' None []))) = []
   \<and> (case fst (handle (nested_guard_app (mark_called (VStr ''A'')))
                   (get_request ''/a'' (Some ''name=x'') [(''a'', ''1'')])) of
         Inl e \<Rightarrow> 0 | Inr r \<Rightarrow> r_status r) = 400"
  by code_simp

section \<open>Validators of a route\<close>

text \<open>
  C2. A route declared with the header schema \<^verbatim>\<open>t.Object({a: t.String()})\<close> and a
  \<^verbatim>\<open>GET\<close> request without the header \<^verbatim>\<open>a\<close>: the compiled header validator is stored
  under the key \<^verbatim>\<open>header\<close> and rejects the request's headers, but \<open>handle\<close> looks
  for \<^verbatim>\<open>validator.headers\<close>, so no validation error is raised: the handler runs (its
  flag is in the store) and the response is 200.
\<close>

theorem header_validator_not_run:
  "map (\<lambda>(m, p, mh). mh_validator mh) (router header_schema_app) =
     [Some \<lparr>v_body = None, v_headers = None,
            v_header = Some (TypeCheck (TObject [(''a'', TString)] (Some True))),
            v_params = None, v_query = None, v_response = None\<rparr>]
   \<and> Check (TypeCheck (TObject [(''a'', TString)] (Some True)))
         (header_object (get_request ''/'' None [])) = False
   \<and> fst (handle header_schema_app (get_request ''/'' None [])) =
       Inr \<lparr>r_status = 200, r_headers = [], r_content_type = None, r_body = VStr ''A''\<rparr>
   \<and> store (snd (handle header_schema_app (get_request ''/'' None []))) =
       [(''called'', VBool True)]"
  by code_simp

section \<open>The hooks before the handler\<close>


lemma mapEarlyResponse_defined:
  "\<not> retval_nullish v \<Longrightarrow> mapEarlyResponse v s = Some (mapResponse v s)"
proof (cases v)
  case (Val x)
  assume "\<not> retval_nullish v"
  with Val show ?thesis by (cases x) simp_all
next
  case (Resp r)
  then show ?thesis by simp
qed








text \<open>
  The same through \<open>handle\<close>: the route that \<^verbatim>\<open>get\<close> registers for these hooks is
  \<open>early_route\<close>, the response is the value of the second hook after the two
  \<^verbatim>\<open>afterHandle\<close> hooks, and the handler's flag is not in the store.
\<close>

lemma early_app_route: "map (\<lambda>(m, p, mh). mh) (router early_app) = [early_route]"
  by (simp add: early_app_def early_route_def get_def addHandler_def Let_def new_Elysia_def
      router_add_def mergeHook_def of_event_def clone_def mergeObjectArray_def no_hook_def
      getSchemaValidator_def getResponseSchemaValidator_def)

lemma early_app_response:
  "fst (handle early_app (get_request ''/'' None [])) =
     Inr \<lparr>r_status = 200, r_headers = [], r_content_type = None, r_body = VStr ''early!!''\<rparr>
   \<and> store (snd (handle early_app (get_request ''/'' None []))) = []"
  by code_simp

section \<open>The check of the handler's result\<close>

text \<open>
  C4. A route declared with the response schema \<^verbatim>\<open>t.String()\<close> whose handler returns
  the number 1: the handler runs (its flag is in the store), then the check of the
  result throws a \<^verbatim>\<open>TypeError\<close>, not a validation error, and the response is 500
  with the message of the \<^verbatim>\<open>TypeError\<close>. A handler returning a string gets the same
  response.
\<close>

theorem response_check_type_error:
  "fst (handle (response_schema_app (VNum 1)) (get_request ''/'' None [])) =
     Inr \<lparr>r_status = 500, r_headers = [], r_content_type = None,
          r_body = VStr ''validator.response.Check is not a function''\<rparr>
   \<and> store (snd (handle (response_schema_app (VNum 1)) (get_request ''/'' None []))) =
       [(''called'', VBool True)]
   \<and> fst (handle (response_schema_app (VStr ''ok'')) (get_request ''/'' None [])) =
     Inr \<lparr>r_status = 500, r_headers = [], r_content_type = None,
          r_body = VStr ''validator.response.Check is not a function''\<rparr>"
  by code_simp

section \<open>The order of registered hooks\<close>

text \<open>
  C5. \<^verbatim>\<open>onParse\<close> puts the new parser before the last registered one: after
  registering \<open>p1\<close>, \<open>p2\<close>, \<open>p3\<close> the parse hooks are \<open>[p2, p3, p1]\<close>, where
  \<^verbatim>\<open>on('parse', ...)\<close> gives \<open>[p1, p2, p3]\<close>. With a parser returning \<^verbatim>\<open>first\<close>
  registered before one returning \<^verbatim>\<open>second\<close>, the body of a \<^verbatim>\<open>POST\<close> is
  \<^verbatim>\<open>second\<close>.
\<close>

theorem onParse_inserts_before_last:
  "ev_parse (event (onParse p3 (onParse p2 (onParse p1 new_Elysia)))) = [p2, p3, p1]
   \<and> ev_parse (event (on (Parse p3) (on (Parse p2) (on (Parse p1) new_Elysia)))) = [p1, p2, p3]
   \<and> fst (handle parse_order_app (post_text ''/'' ''raw'')) =
       Inr \<lparr>r_status = 200, r_headers = [], r_content_type = None, r_body = VStr ''second''\<rparr>"
  by (simp add: onParse_def new_Elysia_def splice_insert_def) code_simp

section \<open>Hooks registered after a route\<close>

lemma fst_handle:
  "fst (handle app request) =
     (case handle_try app request (entry_context app request) of
        (Inr response, c1) \<Rightarrow> Inr response
      | (Inl (error, hs), c1) \<Rightarrow> fst (handle_catch app request hs error c1))"
  by (simp add: handle_def Let_def split: prod.splits sum.splits)

lemma handle_match_event_cong:
  "ev_parse (event app') = ev_parse (event app) \<Longrightarrow>
   router app' = router app \<Longrightarrow>
   handle_match app' request c = handle_match app request c"
  by (simp add: handle_match_def cong: option.case_cong prod.case_cong sum.case_cong)

lemma handle_try_event_cong:
  "ev_request (event app') = ev_request (event app) \<Longrightarrow>
   ev_parse (event app') = ev_parse (event app) \<Longrightarrow>
   router app' = router app \<Longrightarrow>
   handle_try app' request c = handle_try app request c"
  by (simp add: handle_try_def handle_match_event_cong [of app' app]
      cong: option.case_cong prod.case_cong sum.case_cong)

lemma handleError_event_cong:
  "ev_error (event app') = ev_error (event app) \<Longrightarrow>
   handleError app' request error sc = handleError app request error sc"
  by (simp add: handleError_def)

lemma handle_catch_event_cong:
  "ev_error (event app') = ev_error (event app) \<Longrightarrow>
   handle_catch app' request hs error c = handle_catch app request hs error c"
  by (simp add: handle_catch_def handleError_event_cong [of app' app]
      cong: option.case_cong prod.case_cong sum.case_cong)

lemma fst_handle_cong:
  assumes "ev_request (event app') = ev_request (event app)"
    and "ev_parse (event app') = ev_parse (event app)"
    and "ev_error (event app') = ev_error (event app)"
    and "router app' = router app"
    and "decorators app' = decorators app"
  shows "fst (handle app' request) = fst (handle app request)"
proof -
  have "entry_context app' request = entry_context app request"
    using assms by (simp add: entry_context_def)
  moreover have "handle_try app' request c = handle_try app request c" for c
    using assms by (intro handle_try_event_cong)
  moreover have "handle_catch app' request hs error c = handle_catch app request hs error c"
    for hs error c
    using assms by (intro handle_catch_event_cong)
  ultimately show ?thesis
    by (simp add: fst_handle cong: prod.case_cong sum.case_cong)
qed

text \<open>
  C7, as the claim states it, fails: an error hook registered with \<^verbatim>\<open>onError\<close> after
  the route answers for the route (\<^verbatim>\<open>recovered\<close> instead of \<^verbatim>\<open>boom\<close>), and a parser
  registered with \<^verbatim>\<open>onParse\<close> after the route decodes its body (\<^verbatim>\<open>late\<close> instead of
  \<^verbatim>\<open>raw\<close>).
\<close>

theorem late_hooks_observed:
  "fst (handle failing_app (get_request ''/'' None [])) =
     Inr \<lparr>r_status = 500, r_headers = [], r_content_type = None, r_body = VStr ''boom''\<rparr>
   \<and> fst (handle (onError (recover ''recovered'') failing_app) (get_request ''/'' None [])) =
     Inr \<lparr>r_status = 500, r_headers = [], r_content_type = None, r_body = VStr ''recovered''\<rparr>
   \<and> fst (handle echo_app (post_text ''/'' ''raw'')) =
     Inr \<lparr>r_status = 200, r_headers = [], r_content_type = None, r_body = VStr ''raw''\<rparr>
   \<and> fst (handle (onParse (parser_const ''late'') echo_app) (post_text ''/'' ''raw'')) =
     Inr \<lparr>r_status = 200, r_headers = [], r_content_type = None, r_body = VStr ''late''\<rparr>"
  by code_simp

text \<open>
  C7, amended. Registering a hook after a route never changes what the router holds
  for the route; and \<^verbatim>\<open>onTransform\<close>, \<^verbatim>\<open>onBeforeHandle\<close> and \<^verbatim>\<open>onAfterHandle\<close> called
  after the route was registered do not change the response to any request. An error hook
  registered afterwards is at the end of the global error hooks that \<open>handleError\<close> runs.
\<close>

theorem route_hooks_frozen:
  "router (onTransform h app) = router app
   \<and> router (onBeforeHandle h app) = router app
   \<and> router (onAfterHandle ah app) = router app
   \<and> router (onParse p app) = router app
   \<and> router (onError eh app) = router app
   \<and> fst (handle (onTransform h app) request) = fst (handle app request)
   \<and> fst (handle (onBeforeHandle h app) request) = fst (handle app request)
   \<and> fst (handle (onAfterHandle ah app) request) = fst (handle app request)
   \<and> handleError (onError eh app) request error sc =
       (case run_event_error (ev_error (event app) @ [eh]) request error sc of
          (Inl e, sc1) \<Rightarrow> (Inl e, sc1)
        | (Inr (Some response), sc1) \<Rightarrow> (Inr response, sc1)
        | (Inr None, sc1) \<Rightarrow> (Inr (default_error_response error (es_set sc1)), sc1))"
proof (intro conjI)
  show "fst (handle (onTransform h app) request) = fst (handle app request)"
    by (rule fst_handle_cong) (simp_all add: onTransform_def)
  show "fst (handle (onBeforeHandle h app) request) = fst (handle app request)"
    by (rule fst_handle_cong) (simp_all add: onBeforeHandle_def)
  show "fst (handle (onAfterHandle ah app) request) = fst (handle app request)"
    by (rule fst_handle_cong) (simp_all add: onAfterHandle_def)
  show "handleError (onError eh app) request error sc =
       (case run_event_error (ev_error (event app) @ [eh]) request error sc of
          (Inl e, sc1) \<Rightarrow> (Inl e, sc1)
        | (Inr (Some response), sc1) \<Rightarrow> (Inr response, sc1)
        | (Inr None, sc1) \<Rightarrow> (Inr (default_error_response error (es_set sc1)), sc1))"
    by (simp add: handleError_def onError_def)
qed (simp_all add: onTransform_def onBeforeHandle_def onAfterHandle_def onParse_def onError_def)

section \<open>The Context across requests\<close>

lemma parse_body_no_parsers:
  "parse_body [] request c = (fst (parse_body [] request c), c)"
  by (simp add: parse_body_def Let_def split: option.splits)

lemma parse_body_no_parsers_result:
  "fst (parse_body [] request (c\<lparr>c_body := b, c_params := p, c_query := q\<rparr>)) =
   fst (parse_body [] request c)"
  by (simp add: parse_body_def Let_def split: option.splits)

lemma catch_scope_stale:
  "catch_scope (c\<lparr>c_body := b, c_params := p, c_query := q\<rparr>) = catch_scope c"
  by (simp add: catch_scope_def)

lemma handle_route_overwrites:
  "fst (handle_route [] mh params query request (c\<lparr>c_body := b, c_params := p, c_query := q\<rparr>)) =
     fst (handle_route [] mh params query request c)
   \<and> catch_scope (snd (handle_route [] mh params query request
                          (c\<lparr>c_body := b, c_params := p, c_query := q\<rparr>))) =
     catch_scope (snd (handle_route [] mh params query request c))"
proof -
  let ?s = "c\<lparr>c_body := b, c_params := p, c_query := q\<rparr>"
  obtain r where r: "parse_body [] request c = (r, c)"
    using parse_body_no_parsers by metis
  have s: "parse_body [] request ?s = (r, ?s)"
    using parse_body_no_parsers [of request ?s]
      parse_body_no_parsers_result [where request = request and c = c and b = b and p = p and q = q] r
    by simp
  show ?thesis
  proof (cases r)
    case (Inl e)
    with r s show ?thesis
      by (simp add: handle_route_def catch_scope_stale)
  next
    case (Inr body)
    with r s show ?thesis
      by (simp add: handle_route_def Let_def)
  qed
qed

lemma handle_match_stale:
  assumes "ev_parse (event app) = []"
  shows "fst (handle_match app request (c\<lparr>c_body := b, c_params := p, c_query := q\<rparr>)) =
           fst (handle_match app request c)
         \<and> catch_scope (snd (handle_match app request (c\<lparr>c_body := b, c_params := p, c_query := q\<rparr>))) =
           catch_scope (snd (handle_match app request c))"
proof (cases "req_url request")
  case None
  then show ?thesis
    by (simp add: handle_match_def catch_scope_stale)
next
  case (Some u)
  obtain path query where u: "u = (path, query)" by (cases u)
  show ?thesis
  proof (cases "coalesce (router_match (router app) (req_method request) path)
                  (router_match (router app) ''ALL'' path)")
    case None
    with Some u show ?thesis
      by (simp add: handle_match_def catch_scope_stale)
  next
    case (Some m)
    obtain mh params where m: "m = (mh, params)" by (cases m)
    let ?s = "c\<lparr>c_body := b, c_params := p, c_query := q\<rparr>"
    obtain x cx where x: "handle_route [] mh params query request c = (x, cx)"
      by (cases "handle_route [] mh params query request c")
    obtain y cy where y: "handle_route [] mh params query request ?s = (y, cy)"
      by (cases "handle_route [] mh params query request ?s")
    from handle_route_overwrites [where mh = mh and params = params and query = query
        and request = request and c = c and b = b and p = p and q = q] x y
    have "y = x" "catch_scope cy = catch_scope cx" by simp_all
    with \<open>req_url request = Some u\<close> u Some m x y assms show ?thesis
      by (simp add: handle_match_def split: sum.splits)
  qed
qed

lemma fst_handle_catch_scope:
  "catch_scope c' = catch_scope c \<Longrightarrow>
   fst (handle_catch app request hs e c') = fst (handle_catch app request hs e c)"
  by (simp add: handle_catch_def split: prod.splits sum.splits option.splits)

text \<open>
  C8, as the claim states it, fails. In the application of the group test, whose request
  hook counts in the store, the same request to \<^verbatim>\<open>/counter\<close> is answered 1 and then
  2. And with a request hook that returns \<^verbatim>\<open>context.query\<close>, the same request handled
  twice in a row gets the handler's \<^verbatim>\<open>A\<close> the first time and the query object that the
  first run left in the Context the second time.
\<close>

theorem context_reused_across_requests:
  "fst (handle counter_app (get_request ''/counter'' None [])) =
     Inr \<lparr>r_status = 200, r_headers = [], r_content_type = None, r_body = VNum 1\<rparr>
   \<and> fst (handle (snd (handle counter_app (get_request ''/counter'' None [])))
             (get_request ''/counter'' None [])) =
     Inr \<lparr>r_status = 200, r_headers = [], r_content_type = None, r_body = VNum 2\<rparr>
   \<and> fst (handle query_hook_app (get_request ''/'' (Some ''a=1'') [])) =
     Inr \<lparr>r_status = 200, r_headers = [], r_content_type = None, r_body = VStr ''A''\<rparr>
   \<and> fst (handle (snd (handle query_hook_app (get_request ''/'' (Some ''a=1'') [])))
             (get_request ''/'' (Some ''a=1'') [])) =
     Inr \<lparr>r_status = 200, r_headers = [], r_content_type = Some ''application/json'',
          r_body = VObj [(''a'', VStr ''1'')]\<rparr>"
  by code_simp

text \<open>
  C8, amended. \<open>handle\<close> assigns \<^verbatim>\<open>request\<close> and \<^verbatim>\<open>set\<close> at entry: what an earlier
  request left in them changes nothing. Body, params and query are assigned when a route
  is matched: with no request hook and no parse hook registered, the response does not
  depend on the body, params and query that an earlier request left in the Context.
\<close>

theorem context_fields_reassigned:
  "handle (app\<lparr>decorators := (decorators app)\<lparr>c_request := r, c_set := s\<rparr>\<rparr>) request =
     handle app request
   \<and> (ev_request (event app) = [] \<and> ev_parse (event app) = [] \<longrightarrow>
        fst (handle (app\<lparr>decorators := (decorators app)\<lparr>c_body := b, c_params := p, c_query := q\<rparr>\<rparr>)
               request) =
        fst (handle app request))"
proof (intro conjI impI)
  let ?a = "app\<lparr>decorators := (decorators app)\<lparr>c_request := r, c_set := s\<rparr>\<rparr>"
  have e: "entry_context ?a request = entry_context app request"
    by (simp add: entry_context_def)
  have t: "handle_try ?a request c = handle_try app request c" for c
    by (rule handle_try_event_cong) simp_all
  have k: "handle_catch ?a request hs error c = handle_catch app request hs error c" for hs error c
    by (rule handle_catch_event_cong) simp
  show "handle ?a request = handle app request"
    by (simp add: handle_def e t k Let_def split: prod.splits sum.splits)
next
  assume h: "ev_request (event app) = [] \<and> ev_parse (event app) = []"
  let ?a = "app\<lparr>decorators := (decorators app)\<lparr>c_body := b, c_params := p, c_query := q\<rparr>\<rparr>"
  let ?c = "entry_context app request"
  have e: "entry_context ?a request = ?c\<lparr>c_body := b, c_params := p, c_query := q\<rparr>"
    by (simp add: entry_context_def)
  have m: "handle_match ?a request c = handle_match app request c" for c
    by (rule handle_match_event_cong) simp_all
  have k: "handle_catch ?a request hs error c = handle_catch app request hs error c" for hs error c
    by (rule handle_catch_event_cong) simp
  have t1: "handle_try ?a request (entry_context ?a request) =
            handle_match app request (?c\<lparr>c_body := b, c_params := p, c_query := q\<rparr>)"
    using h by (simp add: handle_try_def e m)
  have t2: "handle_try app request ?c = handle_match app request ?c"
    using h by (simp add: handle_try_def)
  obtain x cx where x: "handle_match app request ?c = (x, cx)"
    by (cases "handle_match app request ?c")
  obtain y cy where y: "handle_match app request (?c\<lparr>c_body := b, c_params := p, c_query := q\<rparr>) = (y, cy)"
    by (cases "handle_match app request (?c\<lparr>c_body := b, c_params := p, c_query := q\<rparr>)")
  from handle_match_stale [where app = app and request = request and c = ?c and b = b and p = p and q = q]
    h x y
  have yx: "y = x" and sc: "catch_scope cy = catch_scope cx" by simp_all
  show "fst (handle ?a request) = fst (handle app request)"
  proof (cases x)
    case (Inr response)
    with t1 t2 x y yx show ?thesis by (simp add: fst_handle)
  next
    case (Inl eh)
    obtain error hs where "eh = (error, hs)" by (cases eh)
    with Inl t1 t2 x y yx k fst_handle_catch_scope [OF sc] show ?thesis
      by (simp add: fst_handle)
  qed
qed

theorem context_fields_reassigned_witness:
  "ev_request (event echo_app) = [] \<and> ev_parse (event echo_app) = []
   \<and> fst (handle (echo_app\<lparr>decorators := (decorators echo_app)
                      \<lparr>c_body := VStr ''old'', c_params := VObj [(''id'', VStr ''7'')],
                       c_query := VObj [(''a'', VStr ''1'')]\<rparr>\<rparr>)
             (post_text ''/'' ''raw'')) =
       fst (handle echo_app (post_text ''/'' ''raw''))
   \<and> fst (handle echo_app (post_text ''/'' ''raw'')) =
       Inr \<lparr>r_status = 200, r_headers = [], r_content_type = None, r_body = VStr ''raw''\<rparr>"
proof -
  have h: "ev_request (event echo_app) = [] \<and> ev_parse (event echo_app) = []"
    by code_simp
  have v: "fst (handle echo_app (post_text ''/'' ''raw'')) =
       Inr \<lparr>r_status = 200, r_headers = [], r_content_type = None, r_body = VStr ''raw''\<rparr>"
    by code_simp
  from context_fields_reassigned [where app = echo_app and request = "post_text ''/'' ''raw''"
      and b = "VStr ''old''" and p = "VObj [(''id'', VStr ''7'')]"
      and q = "VObj [(''a'', VStr ''1'')]"] h v
  show ?thesis by simp
qed

section \<open>Error recovery\<close>

lemma mapEarlyResponse_nullish: "retval_nullish v \<Longrightarrow> mapEarlyResponse v s = None"
proof (cases v)
  case (Val x)
  assume "retval_nullish v"
  with Val show ?thesis by (cases x) simp_all
next
  case (Resp r)
  assume "retval_nullish v"
  with Resp show ?thesis by simp
qed

lemma addHandler_error_hooks:
  "hooks_list (mh_hooks (snd (snd (last (router (addHandler method path handler hook app))))))
     h_error =
   ev_error (event app) @ to_array (or_empty (opt_field hook l_error))"
  by (simp add: addHandler_def Let_def router_add_def mergeHook_def of_event_def clone_def
      mergeObjectArray_def hooks_list_def)

lemma run_handleErrors_all_decline:
  "all_decline hs request error code sc = Some sc1 \<Longrightarrow>
   run_handleErrors hs request error code sc = (Inr None, sc1)"
proof (induction hs arbitrary: sc)
  case Nil
  then show ?case by simp
next
  case (Cons h hs)
  obtain r sc' where hc: "h request error code sc = (r, sc')"
    by (cases "h request error code sc")
  from Cons.prems hc obtain v where r: "r = Inr v" and n: "retval_nullish v"
    and rest: "all_decline hs request error code sc' = Some sc1"
    by (cases r) (auto split: if_splits)
  from Cons.IH [OF rest] hc r mapEarlyResponse_nullish [OF n] show ?case by simp
qed

lemma run_handleErrors_first_defined:
  assumes "all_decline pre request error code sc = Some sc1"
    and "h request error code sc1 = (Inr v, sc2)" and "\<not> retval_nullish v"
  shows "run_handleErrors (pre @ h # rest) request error code sc =
           (Inr (Some (mapResponse v (es_set sc2))), sc2)"
  using assms
proof (induction pre arbitrary: sc)
  case Nil
  then show ?case by (simp add: mapEarlyResponse_defined)
next
  case (Cons g pre)
  obtain r sc' where gc: "g request error code sc = (r, sc')"
    by (cases "g request error code sc")
  from Cons.prems(1) gc obtain u where r: "r = Inr u" and n: "retval_nullish u"
    and rest: "all_decline pre request error code sc' = Some sc1"
    by (cases r) (auto split: if_splits)
  from Cons.IH [OF rest Cons.prems(2) Cons.prems(3)] gc r mapEarlyResponse_nullish [OF n]
  show ?case by simp
qed

lemma run_event_error_all_decline:
  "all_decline hs request error (mapErrorCode (message error)) sc = Some sc1 \<Longrightarrow>
   run_event_error hs request error sc = (Inr None, sc1)"
proof (induction hs arbitrary: sc)
  case Nil
  then show ?case by simp
next
  case (Cons h hs)
  obtain r sc' where hc: "h request error (mapErrorCode (message error)) sc = (r, sc')"
    by (cases "h request error (mapErrorCode (message error)) sc")
  from Cons.prems hc obtain v where r: "r = Inr v" and n: "retval_nullish v"
    and rest: "all_decline hs request error (mapErrorCode (message error)) sc' = Some sc1"
    by (cases r) (auto split: if_splits)
  from Cons.IH [OF rest] hc r n show ?case by simp
qed

lemma run_event_error_first_defined:
  assumes "all_decline pre request error (mapErrorCode (message error)) sc = Some sc1"
    and "h request error (mapErrorCode (message error)) sc1 = (Inr v, sc2)"
    and "\<not> retval_nullish v"
  shows "run_event_error (pre @ h # rest) request error sc =
           (Inr (Some (mapResponse v (es_set sc2))), sc2)"
  using assms
proof (induction pre arbitrary: sc)
  case Nil
  then show ?case by simp
next
  case (Cons g pre)
  obtain r sc' where gc: "g request error (mapErrorCode (message error)) sc = (r, sc')"
    by (cases "g request error (mapErrorCode (message error)) sc")
  from Cons.prems(1) gc obtain u where r: "r = Inr u" and n: "retval_nullish u"
    and rest: "all_decline pre request error (mapErrorCode (message error)) sc' = Some sc1"
    by (cases r) (auto split: if_splits)
  from Cons.IH [OF rest Cons.prems(2) Cons.prems(3)] gc r n
  show ?case by simp
qed

lemma raised_handle_try:
  assumes "raised app request = Some (error, hs, c1)"
  shows "\<exists>ho. handle_try app request (entry_context app request) = (Inl (error, ho), c1)
            \<and> (case ho of None \<Rightarrow> [] | Some x \<Rightarrow> x) = hs"
  using assms
  by (auto simp add: raised_def handle_try_def handle_match_def hooks_error_def
      split: prod.splits sum.splits option.splits)

lemma raised_handle:
  assumes "raised app request = Some (error, hs, c1)"
  shows "handle app request =
     (case run_handleErrors hs request error (mapErrorCode (message error)) (catch_scope c1) of
        (Inl e, sc1) \<Rightarrow> (Inl e, app\<lparr>decorators := with_scope sc1 c1\<rparr>)
      | (Inr (Some response), sc1) \<Rightarrow> (Inr response, app\<lparr>decorators := with_scope sc1 c1\<rparr>)
      | (Inr None, sc1) \<Rightarrow>
          (case handleError app request error sc1 of
             (r, sc2) \<Rightarrow> (r, app\<lparr>decorators := with_scope sc2 c1\<rparr>)))"
proof -
  from raised_handle_try [OF assms] obtain ho
    where t: "handle_try app request (entry_context app request) = (Inl (error, ho), c1)"
      and h: "(case ho of None \<Rightarrow> [] | Some x \<Rightarrow> x) = hs"
    by blast
  show ?thesis
    by (simp add: handle_def t handle_catch_def h Let_def
        split: prod.splits sum.splits option.splits)
qed

lemmas error_app_defs =
  route_hook_app_def declining_app_def global_hook_app_def failing_app_def
  get_def onError_def addHandler_def Let_def new_Elysia_def router_add_def mergeHook_def
  of_event_def clone_def mergeObjectArray_def no_hook_def getSchemaValidator_def
  getResponseSchemaValidator_def

lemmas raised_defs =
  raised_def entry_context_def matched_context_def get_request_def router_match_def
  handle_route_def parse_body_def hooks_list_def validate_def handle_main_def throws_def

lemma raised_route_hook_app:
  "raised route_hook_app (get_request ''/'' None []) =
     Some (Error ''boom'' None, [decline] @ recover ''route'' # [],
           matched_context (get_request ''/'' None []) None)"
  by (simp add: error_app_defs raised_defs)

lemma raised_global_hook_app:
  "raised global_hook_app (get_request ''/'' None []) =
     Some (Error ''boom'' None, [decline, decline],
           matched_context (get_request ''/'' None []) None)"
  by (simp add: error_app_defs raised_defs)

lemma raised_declining_app:
  "raised declining_app (get_request ''/'' None []) =
     Some (Error ''boom'' None, [decline, decline],
           matched_context (get_request ''/'' None []) None)"
  by (simp add: error_app_defs raised_defs)

lemma raised_not_found:
  "raised global_hook_app (get_request ''/zz'' None []) =
     Some (Error ''NOT_FOUND'' None, [],
           entry_context global_hook_app (get_request ''/zz'' None []))"
  by (simp add: error_app_defs raised_defs)

text \<open>
  C6, as the claim states it, fails. A route with an error hook of its own that returns
  \<^verbatim>\<open>route\<close> answers \<^verbatim>\<open>route\<close> when its handler throws; registered after a global
  error hook that returns \<^verbatim>\<open>global\<close>, the same route answers \<^verbatim>\<open>global\<close>: the list in
  the route's entry starts with the global error hooks registered before the route, and
  they run before the route's own.
\<close>

theorem global_hook_preempts_route_hook:
  "fst (handle route_only_app (get_request ''/'' None [])) =
     Inr \<lparr>r_status = 500, r_headers = [], r_content_type = None, r_body = VStr ''route''\<rparr>
   \<and> fst (handle route_first_app (get_request ''/'' None [])) =
     Inr \<lparr>r_status = 500, r_headers = [], r_content_type = None, r_body = VStr ''global''\<rparr>"
  by code_simp

text \<open>
  C6, amended. The error hooks in the entry of a route are the scope's error hooks at
  registration followed by the route's own. When the try block of \<open>handle\<close> throws
  (\<open>raised\<close>), the hooks of the matched route's entry run in order: when those before
  \<open>h\<close> return nothing and \<open>h\<close> returns a value, the response of the request is
  that value, whatever the hooks after it and the global hooks are. When all of them
  return nothing, or there are none (no route matched), the scope's global error hooks
  run in order and the first that returns a value gives the response. When none does,
  the response is the default one: the status of the error's code (\<^verbatim>\<open>VALIDATION\<close>
  400, \<^verbatim>\<open>NOT_FOUND\<close> 404, anything else 500) and the error's cause, or its message, as a
  plain-text body.
\<close>

theorem error_recovery_order:
  "hooks_list (mh_hooks (snd (snd (last (router (addHandler method path handler hook app0))))))
       h_error =
     ev_error (event app0) @ to_array (or_empty (opt_field hook l_error))
   \<and> (raised app request = Some (error, pre @ h # rest, c1)
      \<and> all_decline pre request error (mapErrorCode (message error)) (catch_scope c1) = Some sc1
      \<and> h request error (mapErrorCode (message error)) sc1 = (Inr v, sc2)
      \<and> retval_nullish v = False
     \<longrightarrow> handle app request =
           (Inr (mapResponse v (es_set sc2)), app\<lparr>decorators := with_scope sc2 c1\<rparr>))
   \<and> (raised app request = Some (error, hs, d1)
      \<and> all_decline hs request error (mapErrorCode (message error)) (catch_scope d1) = Some sd1
      \<and> ev_error (event app) = gpre @ g # grest
      \<and> all_decline gpre request error (mapErrorCode (message error)) sd1 = Some sd2
      \<and> g request error (mapErrorCode (message error)) sd2 = (Inr w, sd3)
      \<and> retval_nullish w = False
     \<longrightarrow> handle app request =
           (Inr (mapResponse w (es_set sd3)), app\<lparr>decorators := with_scope sd3 d1\<rparr>))
   \<and> (raised app request = Some (error, ks, k1)
      \<and> all_decline ks request error (mapErrorCode (message error)) (catch_scope k1) = Some sk1
      \<and> all_decline (ev_error (event app)) request error (mapErrorCode (message error)) sk1 =
          Some sk2
     \<longrightarrow> handle app request =
           (Inr (default_error_response error (es_set sk2)),
            app\<lparr>decorators := with_scope sk2 k1\<rparr>))
   \<and> r_status (default_error_response error st) = mapErrorStatus (mapErrorCode (message error))
   \<and> mapErrorStatus code =
       (if code = ''VALIDATION'' then 400 else if code = ''NOT_FOUND'' then 404 else 500)
   \<and> mapErrorStatus ''INTERNAL_SERVER_ERROR'' = 500 \<and> mapErrorStatus ''UNKNOWN'' = 500
   \<and> r_body (default_error_response error st) =
       VStr (case cause error of Some x \<Rightarrow> x | None \<Rightarrow> message error)
   \<and> r_content_type (default_error_response error st) = None"
proof (intro conjI impI)
  show "hooks_list (mh_hooks (snd (snd (last (router (addHandler method path handler hook app0))))))
       h_error =
     ev_error (event app0) @ to_array (or_empty (opt_field hook l_error))"
    by (rule addHandler_error_hooks)
next
  assume a: "raised app request = Some (error, pre @ h # rest, c1)
      \<and> all_decline pre request error (mapErrorCode (message error)) (catch_scope c1) = Some sc1
      \<and> h request error (mapErrorCode (message error)) sc1 = (Inr v, sc2)
      \<and> retval_nullish v = False"
  then have r: "raised app request = Some (error, pre @ h # rest, c1)" by simp
  from a have "all_decline pre request error (mapErrorCode (message error)) (catch_scope c1) = Some sc1"
    by simp
  moreover from a have "h request error (mapErrorCode (message error)) sc1 = (Inr v, sc2)" by simp
  moreover from a have "\<not> retval_nullish v" by simp
  ultimately have "run_handleErrors (pre @ h # rest) request error (mapErrorCode (message error))
      (catch_scope c1) = (Inr (Some (mapResponse v (es_set sc2))), sc2)"
    by (rule run_handleErrors_first_defined)
  then show "handle app request =
           (Inr (mapResponse v (es_set sc2)), app\<lparr>decorators := with_scope sc2 c1\<rparr>)"
    by (simp add: raised_handle [OF r])
next
  assume a: "raised app request = Some (error, hs, d1)
      \<and> all_decline hs request error (mapErrorCode (message error)) (catch_scope d1) = Some sd1
      \<and> ev_error (event app) = gpre @ g # grest
      \<and> all_decline gpre request error (mapErrorCode (message error)) sd1 = Some sd2
      \<and> g request error (mapErrorCode (message error)) sd2 = (Inr w, sd3)
      \<and> retval_nullish w = False"
  then have r: "raised app request = Some (error, hs, d1)" by simp
  from a have "all_decline hs request error (mapErrorCode (message error)) (catch_scope d1) = Some sd1"
    by simp
  then have l: "run_handleErrors hs request error (mapErrorCode (message error)) (catch_scope d1) =
      (Inr None, sd1)"
    by (rule run_handleErrors_all_decline)
  from a have "all_decline gpre request error (mapErrorCode (message error)) sd1 = Some sd2"
    by simp
  moreover from a have "g request error (mapErrorCode (message error)) sd2 = (Inr w, sd3)" by simp
  moreover from a have "\<not> retval_nullish w" by simp
  ultimately have "run_event_error (gpre @ g # grest) request error sd1 =
      (Inr (Some (mapResponse w (es_set sd3))), sd3)"
    by (rule run_event_error_first_defined)
  with a l show "handle app request =
           (Inr (mapResponse w (es_set sd3)), app\<lparr>decorators := with_scope sd3 d1\<rparr>)"
    by (simp add: raised_handle [OF r] handleError_def)
next
  assume a: "raised app request = Some (error, ks, k1)
      \<and> all_decline ks request error (mapErrorCode (message error)) (catch_scope k1) = Some sk1
      \<and> all_decline (ev_error (event app)) request error (mapErrorCode (message error)) sk1 =
          Some sk2"
  then have r: "raised app request = Some (error, ks, k1)" by simp
  from a have "all_decline ks request error (mapErrorCode (message error)) (catch_scope k1) = Some sk1"
    by simp
  then have l: "run_handleErrors ks request error (mapErrorCode (message error)) (catch_scope k1) =
      (Inr None, sk1)"
    by (rule run_handleErrors_all_decline)
  from a have "all_decline (ev_error (event app)) request error (mapErrorCode (message error)) sk1 =
          Some sk2" by simp
  then have "run_event_error (ev_error (event app)) request error sk1 = (Inr None, sk2)"
    by (rule run_event_error_all_decline)
  with l show "handle app request =
           (Inr (default_error_response error (es_set sk2)),
            app\<lparr>decorators := with_scope sk2 k1\<rparr>)"
    by (simp add: raised_handle [OF r] handleError_def)
next
  show "r_status (default_error_response error st) = mapErrorStatus (mapErrorCode (message error))"
    by (simp add: default_error_response_def)
next
  show "mapErrorStatus code =
       (if code = ''VALIDATION'' then 400 else if code = ''NOT_FOUND'' then 404 else 500)"
    by (simp add: mapErrorStatus_def)
next
  show "mapErrorStatus ''INTERNAL_SERVER_ERROR'' = 500" by (simp add: mapErrorStatus_def)
next
  show "mapErrorStatus ''UNKNOWN'' = 500" by (simp add: mapErrorStatus_def)
next
  show "r_body (default_error_response error st) =
       VStr (case cause error of Some x \<Rightarrow> x | None \<Rightarrow> message error)"
    by (simp add: default_error_response_def)
next
  show "r_content_type (default_error_response error st) = None"
    by (simp add: default_error_response_def)
qed

text \<open>
  The three cases through \<open>handle\<close>: a route whose own error hook answers after a
  global hook that returns nothing; a route whose hooks all return nothing, answered by a
  global hook registered after the route (also when no route is matched); and the default
  response when every error hook returns nothing.
\<close>

theorem error_recovery_order_witness:
  "raised route_hook_app (get_request ''/'' None []) =
     Some (Error ''boom'' None, [decline] @ recover ''route'' # [],
           matched_context (get_request ''/'' None []) None)
   \<and> handle route_hook_app (get_request ''/'' None []) =
       (Inr \<lparr>r_status = 500, r_headers = [], r_content_type = None, r_body = VStr ''route''\<rparr>,
        route_hook_app\<lparr>decorators :=
          with_scope error_scope_500 (matched_context (get_request ''/'' None []) None)\<rparr>)
   \<and> raised global_hook_app (get_request ''/'' None []) =
     Some (Error ''boom'' None, [decline, decline],
           matched_context (get_request ''/'' None []) None)
   \<and> ev_error (event global_hook_app) = [decline] @ recover ''global'' # []
   \<and> handle global_hook_app (get_request ''/'' None []) =
       (Inr \<lparr>r_status = 500, r_headers = [], r_content_type = None, r_body = VStr ''global''\<rparr>,
        global_hook_app\<lparr>decorators :=
          with_scope error_scope_500 (matched_context (get_request ''/'' None []) None)\<rparr>)
   \<and> raised global_hook_app (get_request ''/zz'' None []) =
     Some (Error ''NOT_FOUND'' None, [],
           entry_context global_hook_app (get_request ''/zz'' None []))
   \<and> handle global_hook_app (get_request ''/zz'' None []) =
       (Inr \<lparr>r_status = 500, r_headers = [], r_content_type = None, r_body = VStr ''global''\<rparr>,
        global_hook_app\<lparr>decorators :=
          with_scope error_scope_500 (entry_context global_hook_app (get_request ''/zz'' None []))\<rparr>)
   \<and> raised declining_app (get_request ''/'' None []) =
     Some (Error ''boom'' None, [decline, decline],
           matched_context (get_request ''/'' None []) None)
   \<and> ev_error (event declining_app) = [decline]
   \<and> handle declining_app (get_request ''/'' None []) =
       (Inr \<lparr>r_status = 500, r_headers = [], r_content_type = None, r_body = VStr ''boom''\<rparr>,
        declining_app\<lparr>decorators :=
          with_scope error_scope_500 (matched_context (get_request ''/'' None []) None)\<rparr>)"
proof -
  let ?req = "get_request ''/'' None []"
  let ?zz = "get_request ''/zz'' None []"
  let ?boom = "Error ''boom'' None"
  let ?nf = "Error ''NOT_FOUND'' None"
  have s: "catch_scope (matched_context ?req None) = error_scope_500"
    by code_simp
  have sz: "catch_scope (entry_context global_hook_app ?zz) = error_scope_500"
    by code_simp
  have d: "decline request error code sc = (Inr (Val VUndefined), sc)" for request error code sc
    by (simp add: decline_def)
  have r: "recover x request error code sc = (Inr (Val (VStr x)), sc)" for x request error code sc
    by (simp add: recover_def)
  have eg: "ev_error (event global_hook_app) = [decline] @ recover ''global'' # []"
    by (simp add: error_app_defs)
  have ed: "ev_error (event declining_app) = [decline]"
    by (simp add: error_app_defs)
  have m: "es_set error_scope_500 = \<lparr>set_status = 500, set_headers = []\<rparr>"
    by (simp add: error_scope_500_def)
  have a: "handle route_hook_app ?req =
       (Inr \<lparr>r_status = 500, r_headers = [], r_content_type = None, r_body = VStr ''route''\<rparr>,
        route_hook_app\<lparr>decorators := with_scope error_scope_500 (matched_context ?req None)\<rparr>)"
    using error_recovery_order [where app = route_hook_app and request = ?req and error = ?boom
        and pre = "[decline]" and h = "recover ''route''" and rest = "[]"
        and ?c1.0 = "matched_context ?req None" and ?sc1.0 = error_scope_500
        and v = "Val (VStr ''route'')" and ?sc2.0 = error_scope_500]
      raised_route_hook_app s d r m
    by simp
  have b: "handle global_hook_app ?req =
       (Inr \<lparr>r_status = 500, r_headers = [], r_content_type = None, r_body = VStr ''global''\<rparr>,
        global_hook_app\<lparr>decorators := with_scope error_scope_500 (matched_context ?req None)\<rparr>)"
    using error_recovery_order [where app = global_hook_app and request = ?req and error = ?boom
        and hs = "[decline, decline]" and ?d1.0 = "matched_context ?req None"
        and ?sd1.0 = error_scope_500 and gpre = "[decline]" and g = "recover ''global''"
        and grest = "[]" and ?sd2.0 = error_scope_500 and w = "Val (VStr ''global'')"
        and ?sd3.0 = error_scope_500]
      raised_global_hook_app eg s d r m
    by simp
  have bz: "handle global_hook_app ?zz =
       (Inr \<lparr>r_status = 500, r_headers = [], r_content_type = None, r_body = VStr ''global''\<rparr>,
        global_hook_app\<lparr>decorators :=
          with_scope error_scope_500 (entry_context global_hook_app ?zz)\<rparr>)"
    using error_recovery_order [where app = global_hook_app and request = ?zz and error = ?nf
        and hs = "[]" and ?d1.0 = "entry_context global_hook_app ?zz"
        and ?sd1.0 = error_scope_500 and gpre = "[decline]" and g = "recover ''global''"
        and grest = "[]" and ?sd2.0 = error_scope_500 and w = "Val (VStr ''global'')"
        and ?sd3.0 = error_scope_500]
      raised_not_found eg sz d r m
    by simp
  have c: "handle declining_app ?req =
       (Inr \<lparr>r_status = 500, r_headers = [], r_content_type = None, r_body = VStr ''boom''\<rparr>,
        declining_app\<lparr>decorators := with_scope error_scope_500 (matched_context ?req None)\<rparr>)"
    using error_recovery_order [where app = declining_app and request = ?req and error = ?boom
        and ks = "[decline, decline]" and ?k1.0 = "matched_context ?req None"
        and ?sk1.0 = error_scope_500 and ?sk2.0 = error_scope_500]
      raised_declining_app ed s d m
    by (simp add: default_error_response_def mapErrorStatus_def mapErrorCode_def)
  from a b bz c raised_route_hook_app raised_global_hook_app raised_not_found
    raised_declining_app eg ed
  show ?thesis by simp
qed

section \<open>Model registration and state\<close>

lemma lookup_setModel_entries:
  "map_of (setModel_entries r ds) x = (case map_of ds x of Some d \<Rightarrow> Some d | None \<Rightarrow> map_of r x)"
proof (induction r ds rule: setModel_entries.induct)
  case (1 ds)
  then show ?case by (simp split: option.splits)
next
  case (2 key v rest ds)
  show ?case
  proof (cases "key \<in> fst ` set ds")
    case True
    then obtain d where "map_of ds key = Some d"
      by (metis domD dom_map_of_conv_image_fst)
    with True 2 show ?thesis by (auto split: option.splits)
  next
    case False
    then have "map_of ds key = None"
      by (simp add: map_of_eq_None_iff)
    with False 2 show ?thesis by (auto split: option.splits)
  qed
qed

lemma map_of_setModel_entries: "map_of (setModel_entries r ds) = map_of r ++ map_of ds"
  by (rule ext) (simp add: lookup_setModel_entries map_add_def)

lemma keys_setModel_entries:
  "fst ` set (setModel_entries r ds) = fst ` set r \<union> fst ` set ds"
  by (induction r ds rule: setModel_entries.induct) auto

lemma setModel_entries_noop:
  "fst ` set r \<subseteq> fst ` set ds \<Longrightarrow> setModel_entries r ds = ds"
  by (induction r ds rule: setModel_entries.induct) auto

lemma setModel_entries_idem:
  "setModel_entries r (setModel_entries r ds) = setModel_entries r ds"
  by (rule setModel_entries_noop) (simp add: keys_setModel_entries)

lemma state_twice: "state name v2 (state name v1 app) = state name v1 app"
  by (simp add: state_def store_def in_plain_object_def)

lemma state_inherited_name:
  "name \<in> set Object_prototype_names \<Longrightarrow> state name v app = app"
  by (simp add: state_def in_plain_object_def)

lemma store_state:
  "name \<notin> set Object_prototype_names \<Longrightarrow>
   map_of (store (state name v app)) = [name \<mapsto> v] ++ map_of (store app)"
  by (auto simp: state_def store_def in_plain_object_def map_add_def fun_eq_iff map_of_eq_None_iff
      dom_map_of_conv_image_fst split: option.splits)

text \<open>
  C9. \<open>state\<close> does not follow the first-call-wins rule for every name: for a name
  that a plain object inherits (\<^verbatim>\<open>toString\<close>, \<^verbatim>\<open>constructor\<close>, ...) the first call
  writes nothing, the store is as before. An ordinary name is written by the first call.
  The registry of models inherits nothing: \<open>setModel\<close> registers \<^verbatim>\<open>toString\<close>, keeps
  for every name the descriptor the registry already had and otherwise the first one
  that the record has (\<open>m ++ m'\<close> looks in \<open>m'\<close> first), and registering twice leaves
  the registry as registering once. Calling \<open>state\<close> twice for a name leaves the
  application as calling it once.
\<close>

theorem state_skips_inherited_names:
  "store (state ''toString'' (VNum 1) new_Elysia) = []
   \<and> list_all (\<lambda>name. state name v app = app) Object_prototype_names
   \<and> store (state ''counter'' (VNum 1) new_Elysia) = [(''counter'', VNum 1)]
   \<and> defs (setModel [(''toString'', TString)] new_Elysia) = [(''toString'', TString)]
   \<and> map_of (defs (setModel r app)) = map_of r ++ map_of (defs app)
   \<and> setModel r (setModel r app) = setModel r app
   \<and> setModel [(name, d2)] (setModel [(name, d1)] app) = setModel [(name, d1)] app
   \<and> state name v2 (state name v1 app) = state name v1 app"
proof (intro conjI)
  show "store (state ''toString'' (VNum 1) new_Elysia) = []"
    by code_simp
  show "list_all (\<lambda>name. state name v app = app) Object_prototype_names"
    by (simp add: list_all_iff state_inherited_name)
  show "store (state ''counter'' (VNum 1) new_Elysia) = [(''counter'', VNum 1)]"
    by code_simp
  show "defs (setModel [(''toString'', TString)] new_Elysia) = [(''toString'', TString)]"
    by code_simp
  show "map_of (defs (setModel r app)) = map_of r ++ map_of (defs app)"
    by (simp add: setModel_def map_of_setModel_entries)
  show "setModel r (setModel r app) = setModel r app"
    by (simp add: setModel_def setModel_entries_idem)
  show "setModel [(name, d2)] (setModel [(name, d1)] app) = setModel [(name, d1)] app"
    by (simp add: setModel_def)
  show "state name v2 (state name v1 app) = state name v1 app"
    by (rule state_twice)
qed

section \<open>Request hooks of a child scope\<close>

lemma event_addHandler: "event (addHandler method path handler hook app) = event app"
  by (simp add: addHandler_def Let_def)

lemma event_fold_addHandler:
  "event (fold (\<lambda>r a. addHandler (m r) (p r) (h r) (k r) a) rs app) = event app"
  by (induction rs arbitrary: app) (simp_all add: event_addHandler)

lemma ev_request_fold_request:
  "ev_request (event (fold_request sandbox app)) =
   ev_request (event app) @ ev_request (event sandbox)"
  by (simp add: fold_request_def)

lemma event_scope_prefix:
  "ev_request (event (setModel ds (fold_request sandbox (share_store sandbox app)))) =
   ev_request (event app) @ ev_request (event sandbox)"
  by (simp add: setModel_def ev_request_fold_request share_store_def fold_request_def)

lemma ev_request_group:
  "ev_request (event (group prefix run app)) =
   ev_request (event app) @ ev_request (event (run (child_instance app)))"
  by (simp add: group_def Let_def event_fold_addHandler event_scope_prefix)

lemma ev_request_guard:
  "ev_request (event (guard hook run app)) =
   ev_request (event app) @ ev_request (event (run (child_instance app)))"
  by (simp add: guard_def Let_def event_fold_addHandler event_scope_prefix)

lemma run_request_all_nullish:
  "all_nullish hs c = Some c1 \<Longrightarrow> run_request hs c = (Inr None, c1)"
proof (induction hs arbitrary: c)
  case Nil
  then show ?case by simp
next
  case (Cons h hs)
  obtain r c' where hc: "h c = (r, c')" by (cases "h c")
  from Cons.prems hc obtain v where r: "r = Inr v" and n: "retval_nullish v"
    and rest: "all_nullish hs c' = Some c1"
    by (cases r) (auto split: if_splits)
  from Cons.IH [OF rest] hc r mapEarlyResponse_nullish [OF n] show ?case by simp
qed

lemma run_request_first_defined:
  assumes "all_nullish pre c = Some c1" and "h c1 = (Inr v, c2)" and "\<not> retval_nullish v"
  shows "run_request (pre @ h # rest) c = (Inr (Some (mapResponse v (c_set c2))), c2)"
  using assms
proof (induction pre arbitrary: c)
  case Nil
  then show ?case by (simp add: mapEarlyResponse_defined)
next
  case (Cons g pre)
  obtain r c' where gc: "g c = (r, c')" by (cases "g c")
  from Cons.prems(1) gc obtain u where r: "r = Inr u" and n: "retval_nullish u"
    and rest: "all_nullish pre c' = Some c1"
    by (cases r) (auto split: if_splits)
  from Cons.IH [OF rest Cons.prems(2) Cons.prems(3)] gc r mapEarlyResponse_nullish [OF n]
  show ?case by simp
qed

lemma handle_request_hook_responds:
  assumes "ev_request (event app) = pre @ h # rest"
    and "all_nullish pre (entry_context app request) = Some c1"
    and "h c1 = (Inr v, c2)" and "\<not> retval_nullish v"
  shows "handle app request = (Inr (mapResponse v (c_set c2)), app\<lparr>decorators := c2\<rparr>)"
proof -
  have "run_request (pre @ h # rest) (entry_context app request) =
          (Inr (Some (mapResponse v (c_set c2))), c2)"
    using assms(2) assms(3) assms(4) by (rule run_request_first_defined)
  with assms(1) show ?thesis by (simp add: handle_def handle_try_def)
qed

lemma handle_request_hooks_pass:
  assumes "all_nullish (ev_request (event app)) (entry_context app request) = Some d"
  shows "handle_try app request (entry_context app request) = handle_match app request d"
  using run_request_all_nullish [OF assms] by (simp add: handle_try_def)

lemma event_state: "event (state name v app) = event app"
  by (simp add: state_def)

text \<open>
  C10. After \<open>group\<close> or \<open>guard\<close> the request hooks of the parent are its own followed
  by those the child registered, and they run for every request the application handles,
  whatever its method and path. When the parent's hooks and the child's hooks before
  \<open>h\<close> return nothing and the child's hook \<open>h\<close> returns a value, that value is the
  response of the request and the Context is as \<open>h\<close> left it. When all of them return
  nothing, the route is looked up and run from the Context as the child's hooks left it.
\<close>

theorem child_request_hooks_global:
  "ev_request (event (group prefix run app)) =
     ev_request (event app) @ ev_request (event (run (child_instance app)))
   \<and> ev_request (event (guard hook run app)) =
     ev_request (event app) @ ev_request (event (run (child_instance app)))
   \<and> (ev_request (event (run (child_instance app))) = pre @ h # rest
      \<and> all_nullish (ev_request (event app) @ pre)
           (entry_context (group prefix run app) request) = Some c1
      \<and> h c1 = (Inr v, c2) \<and> retval_nullish v = False
     \<longrightarrow> handle (group prefix run app) request =
           (Inr (mapResponse v (c_set c2)), (group prefix run app)\<lparr>decorators := c2\<rparr>))
   \<and> (ev_request (event (run (child_instance app))) = gpre @ g # grest
      \<and> all_nullish (ev_request (event app) @ gpre)
           (entry_context (guard hook run app) request) = Some d1
      \<and> g d1 = (Inr w, d2) \<and> retval_nullish w = False
     \<longrightarrow> handle (guard hook run app) request =
           (Inr (mapResponse w (c_set d2)), (guard hook run app)\<lparr>decorators := d2\<rparr>))
   \<and> (all_nullish (ev_request (event app) @ ev_request (event (run (child_instance app))))
           (entry_context (group prefix run app) request) = Some k1
     \<longrightarrow> handle_try (group prefix run app) request (entry_context (group prefix run app) request) =
           handle_match (group prefix run app) request k1)
   \<and> (all_nullish (ev_request (event app) @ ev_request (event (run (child_instance app))))
           (entry_context (guard hook run app) request) = Some k2
     \<longrightarrow> handle_try (guard hook run app) request (entry_context (guard hook run app) request) =
           handle_match (guard hook run app) request k2)"
proof (intro conjI impI)
  show "ev_request (event (group prefix run app)) =
     ev_request (event app) @ ev_request (event (run (child_instance app)))"
    by (rule ev_request_group)
  show "ev_request (event (guard hook run app)) =
     ev_request (event app) @ ev_request (event (run (child_instance app)))"
    by (rule ev_request_guard)
next
  assume a: "ev_request (event (run (child_instance app))) = pre @ h # rest
      \<and> all_nullish (ev_request (event app) @ pre)
           (entry_context (group prefix run app) request) = Some c1
      \<and> h c1 = (Inr v, c2) \<and> retval_nullish v = False"
  then have "ev_request (event (group prefix run app)) = (ev_request (event app) @ pre) @ h # rest"
    by (simp add: ev_request_group)
  moreover from a have "all_nullish (ev_request (event app) @ pre)
           (entry_context (group prefix run app) request) = Some c1" by simp
  moreover from a have "h c1 = (Inr v, c2)" by simp
  moreover from a have "\<not> retval_nullish v" by simp
  ultimately show "handle (group prefix run app) request =
           (Inr (mapResponse v (c_set c2)), (group prefix run app)\<lparr>decorators := c2\<rparr>)"
    by (rule handle_request_hook_responds)
next
  assume a: "ev_request (event (run (child_instance app))) = gpre @ g # grest
      \<and> all_nullish (ev_request (event app) @ gpre)
           (entry_context (guard hook run app) request) = Some d1
      \<and> g d1 = (Inr w, d2) \<and> retval_nullish w = False"
  then have "ev_request (event (guard hook run app)) = (ev_request (event app) @ gpre) @ g # grest"
    by (simp add: ev_request_guard)
  moreover from a have "all_nullish (ev_request (event app) @ gpre)
           (entry_context (guard hook run app) request) = Some d1" by simp
  moreover from a have "g d1 = (Inr w, d2)" by simp
  moreover from a have "\<not> retval_nullish w" by simp
  ultimately show "handle (guard hook run app) request =
           (Inr (mapResponse w (c_set d2)), (guard hook run app)\<lparr>decorators := d2\<rparr>)"
    by (rule handle_request_hook_responds)
next
  assume "all_nullish (ev_request (event app) @ ev_request (event (run (child_instance app))))
           (entry_context (group prefix run app) request) = Some k1"
  then have "all_nullish (ev_request (event (group prefix run app)))
           (entry_context (group prefix run app) request) = Some k1"
    by (simp add: ev_request_group)
  then show "handle_try (group prefix run app) request (entry_context (group prefix run app) request) =
           handle_match (group prefix run app) request k1"
    by (rule handle_request_hooks_pass)
next
  assume "all_nullish (ev_request (event app) @ ev_request (event (run (child_instance app))))
           (entry_context (guard hook run app) request) = Some k2"
  then have "all_nullish (ev_request (event (guard hook run app)))
           (entry_context (guard hook run app) request) = Some k2"
    by (simp add: ev_request_guard)
  then show "handle_try (guard hook run app) request (entry_context (guard hook run app) request) =
           handle_match (guard hook run app) request k2"
    by (rule handle_request_hooks_pass)
qed

text \<open>
  A request to \<^verbatim>\<open>/\<close>, outside the child scope: a child whose second request hook
  returns \<^verbatim>\<open>blocked\<close> answers it, after its first hook counted the request; in the test
  of the group (\<^verbatim>\<open>part_003\<close>) the route \<^verbatim>\<open>/\<close> runs from a store whose counter the
  child's hook has incremented, and answers \<^verbatim>\<open>A\<close>.
\<close>

theorem child_request_hooks_global_witness:
  "ev_request (event (gate_scope (child_instance gate_parent))) =
     [increment_counter] @ returns (VStr ''blocked'') # []
   \<and> all_nullish (ev_request (event gate_parent) @ [increment_counter])
        (entry_context (group ''/g'' gate_scope gate_parent) (get_request ''/'' None [])) =
      Some ((entry_context (group ''/g'' gate_scope gate_parent) (get_request ''/'' None []))
              \<lparr>c_store := [(''counter'', VNum 1)]\<rparr>)
   \<and> handle (group ''/g'' gate_scope gate_parent) (get_request ''/'' None []) =
       (Inr \<lparr>r_status = 200, r_headers = [], r_content_type = None, r_body = VStr ''blocked''\<rparr>,
        (group ''/g'' gate_scope gate_parent)
          \<lparr>decorators :=
             (entry_context (group ''/g'' gate_scope gate_parent) (get_request ''/'' None []))
               \<lparr>c_store := [(''counter'', VNum 1)]\<rparr>\<rparr>)
   \<and> all_nullish (ev_request (event gate_parent) @ [increment_counter])
        (entry_context (guard no_hook gate_scope gate_parent) (get_request ''/'' None [])) =
      Some ((entry_context (guard no_hook gate_scope gate_parent) (get_request ''/'' None []))
              \<lparr>c_store := [(''counter'', VNum 1)]\<rparr>)
   \<and> handle (guard no_hook gate_scope gate_parent) (get_request ''/'' None []) =
       (Inr \<lparr>r_status = 200, r_headers = [], r_content_type = None, r_body = VStr ''blocked''\<rparr>,
        (guard no_hook gate_scope gate_parent)
          \<lparr>decorators :=
             (entry_context (guard no_hook gate_scope gate_parent) (get_request ''/'' None []))
               \<lparr>c_store := [(''counter'', VNum 1)]\<rparr>\<rparr>)
   \<and> handle_try counter_app (get_request ''/'' None [])
        (entry_context counter_app (get_request ''/'' None [])) =
      handle_match counter_app (get_request ''/'' None [])
        ((entry_context counter_app (get_request ''/'' None []))\<lparr>c_store := [(''counter'', VNum 1)]\<rparr>)
   \<and> handle_try counter_guard_app (get_request ''/'' None [])
        (entry_context counter_guard_app (get_request ''/'' None [])) =
      handle_match counter_guard_app (get_request ''/'' None [])
        ((entry_context counter_guard_app (get_request ''/'' None []))
           \<lparr>c_store := [(''counter'', VNum 1)]\<rparr>)
   \<and> fst (handle counter_app (get_request ''/'' None [])) =
       Inr \<lparr>r_status = 200, r_headers = [], r_content_type = None, r_body = VStr ''A''\<rparr>
   \<and> store (snd (handle counter_app (get_request ''/'' None []))) = [(''counter'', VNum 1)]"
proof -
  let ?req = "get_request ''/'' None []"
  let ?home = "get ''/'' (returns (VStr ''A'')) None new_Elysia"
  let ?scope = "\<lambda>app. get [] read_counter None
                        (onRequest increment_counter (state ''counter'' (VNum 0) app))"
  let ?gscope = "\<lambda>app. get ''/counter'' read_counter None
                        (onRequest increment_counter (state ''counter'' (VNum 0) app))"
  have e: "ev_request (event (gate_scope (child_instance gate_parent))) =
     [increment_counter] @ returns (VStr ''blocked'') # []"
    by (simp add: gate_scope_def get_def event_addHandler onRequest_def event_state
        child_instance_def new_Elysia_def)
  have a1: "all_nullish (ev_request (event gate_parent) @ [increment_counter])
        (entry_context (group ''/g'' gate_scope gate_parent) ?req) =
      Some ((entry_context (group ''/g'' gate_scope gate_parent) ?req)
              \<lparr>c_store := [(''counter'', VNum 1)]\<rparr>)"
    by code_simp
  have a2: "all_nullish (ev_request (event gate_parent) @ [increment_counter])
        (entry_context (guard no_hook gate_scope gate_parent) ?req) =
      Some ((entry_context (guard no_hook gate_scope gate_parent) ?req)
              \<lparr>c_store := [(''counter'', VNum 1)]\<rparr>)"
    by code_simp
  have b: "returns (VStr ''blocked'') c = (Inr (Val (VStr ''blocked'')), c)" for c
    by (simp add: returns_def)
  have s1: "c_set ((entry_context (group ''/g'' gate_scope gate_parent) ?req)
              \<lparr>c_store := [(''counter'', VNum 1)]\<rparr>) = \<lparr>set_status = 200, set_headers = []\<rparr>"
    by (simp add: entry_context_def)
  have s2: "c_set ((entry_context (guard no_hook gate_scope gate_parent) ?req)
              \<lparr>c_store := [(''counter'', VNum 1)]\<rparr>) = \<lparr>set_status = 200, set_headers = []\<rparr>"
    by (simp add: entry_context_def)
  have k1: "all_nullish (ev_request (event ?home) @ ev_request (event (?scope (child_instance ?home))))
        (entry_context (group ''/counter'' ?scope ?home) ?req) =
      Some ((entry_context (group ''/counter'' ?scope ?home) ?req)\<lparr>c_store := [(''counter'', VNum 1)]\<rparr>)"
    by code_simp
  have k2: "all_nullish (ev_request (event ?home) @ ev_request (event (?gscope (child_instance ?home))))
        (entry_context (guard no_hook ?gscope ?home) ?req) =
      Some ((entry_context (guard no_hook ?gscope ?home) ?req)\<lparr>c_store := [(''counter'', VNum 1)]\<rparr>)"
    by code_simp
  have v: "fst (handle counter_app ?req) =
       Inr \<lparr>r_status = 200, r_headers = [], r_content_type = None, r_body = VStr ''A''\<rparr>
     \<and> store (snd (handle counter_app ?req)) = [(''counter'', VNum 1)]"
    by code_simp
  have g1: "handle (group ''/g'' gate_scope gate_parent) ?req =
       (Inr \<lparr>r_status = 200, r_headers = [], r_content_type = None, r_body = VStr ''blocked''\<rparr>,
        (group ''/g'' gate_scope gate_parent)
          \<lparr>decorators := (entry_context (group ''/g'' gate_scope gate_parent) ?req)
               \<lparr>c_store := [(''counter'', VNum 1)]\<rparr>\<rparr>)"
    using child_request_hooks_global [where app = gate_parent and run = gate_scope
        and prefix = "''/g''" and request = ?req and pre = "[increment_counter]"
        and h = "returns (VStr ''blocked'')" and rest = "[]"
        and ?c1.0 = "(entry_context (group ''/g'' gate_scope gate_parent) ?req)
              \<lparr>c_store := [(''counter'', VNum 1)]\<rparr>"
        and v = "Val (VStr ''blocked'')"
        and ?c2.0 = "(entry_context (group ''/g'' gate_scope gate_parent) ?req)
              \<lparr>c_store := [(''counter'', VNum 1)]\<rparr>"] e a1 b s1
    by simp
  have g2: "handle (guard no_hook gate_scope gate_parent) ?req =
       (Inr \<lparr>r_status = 200, r_headers = [], r_content_type = None, r_body = VStr ''blocked''\<rparr>,
        (guard no_hook gate_scope gate_parent)
          \<lparr>decorators := (entry_context (guard no_hook gate_scope gate_parent) ?req)
               \<lparr>c_store := [(''counter'', VNum 1)]\<rparr>\<rparr>)"
    using child_request_hooks_global [where app = gate_parent and run = gate_scope
        and hook = no_hook and request = ?req and gpre = "[increment_counter]"
        and g = "returns (VStr ''blocked'')" and grest = "[]"
        and ?d1.0 = "(entry_context (guard no_hook gate_scope gate_parent) ?req)
              \<lparr>c_store := [(''counter'', VNum 1)]\<rparr>"
        and w = "Val (VStr ''blocked'')"
        and ?d2.0 = "(entry_context (guard no_hook gate_scope gate_parent) ?req)
              \<lparr>c_store := [(''counter'', VNum 1)]\<rparr>"] e a2 b s2
    by simp
  have t1: "handle_try counter_app ?req (entry_context counter_app ?req) =
      handle_match counter_app ?req
        ((entry_context counter_app ?req)\<lparr>c_store := [(''counter'', VNum 1)]\<rparr>)"
    unfolding counter_app_def
    using child_request_hooks_global [where app = ?home and run = ?scope
        and prefix = "''/counter''" and request = ?req
        and ?k1.0 = "(entry_context (group ''/counter'' ?scope ?home) ?req)
                       \<lparr>c_store := [(''counter'', VNum 1)]\<rparr>"] k1
    by simp
  have t2: "handle_try counter_guard_app ?req (entry_context counter_guard_app ?req) =
      handle_match counter_guard_app ?req
        ((entry_context counter_guard_app ?req)\<lparr>c_store := [(''counter'', VNum 1)]\<rparr>)"
    unfolding counter_guard_app_def
    using child_request_hooks_global [where app = ?home and run = ?gscope
        and hook = no_hook and request = ?req
        and ?k2.0 = "(entry_context (guard no_hook ?gscope ?home) ?req)
                       \<lparr>c_store := [(''counter'', VNum 1)]\<rparr>"] k2
    by simp
  from e a1 a2 g1 g2 t1 t2 v show ?thesis by simp
qed

text \<open>
  The test of the group (\<^verbatim>\<open>part_003\<close>): after a request to \<^verbatim>\<open>/\<close>, outside the
  group, a request to \<^verbatim>\<open>/counter\<close> reads the counter 2; the same with \<open>guard\<close>.
\<close>

lemma group_delegate_onRequest:
  "fst (handle (snd (handle counter_app (get_request ''/'' None [])))
          (get_request ''/counter'' None [])) =
     Inr \<lparr>r_status = 200, r_headers = [], r_content_type = None, r_body = VNum 2\<rparr>
   \<and> fst (handle (snd (handle counter_guard_app (get_request ''/'' None [])))
          (get_request ''/counter'' None [])) =
     Inr \<lparr>r_status = 200, r_headers = [], r_content_type = None, r_body = VNum 2\<rparr>"
  by code_simp

end
